theory Spec2Isabelle
  imports Complex_Main "HOL-Library.Word"
begin

section \<open>Data model\<close>

text \<open>
  The canonical records of the review-analysis pipeline. Go's \<open>int\<close> is the 64-bit
  two's-complement integer of the usual targets: addition wraps, \<open>sint\<close> reads the signed
  value. A \<open>float64\<close> is modelled by the real number it denotes; rounding is not modelled.
  A Go \<open>string\<close> is a byte sequence, here a \<open>char list\<close>.
\<close>

type_synonym go_int = "64 word"
type_synonym float64 = real

record Review =
  ID :: string
  Date :: string
  UserID :: string
  ReviewText :: string
  Rating :: go_int
  Source :: string

record ReviewCollection =
  Reviews :: "Review list"
  Type :: string
  Count :: go_int

record SentimentResult =
  ReviewID :: string
  Sentiment :: string
  Score :: float64

record ThemeResult =
  Theme :: string
  PreCount :: go_int
  PostCount :: go_int
  ChangeRate :: float64
  Sentiment :: string

record SentimentSummary =
  Positive :: go_int
  Negative :: go_int
  Neutral :: go_int
  Average :: float64

record ComparisonResult =
  PreLaunchSentiment :: SentimentSummary
  PostLaunchSentiment :: SentimentSummary
  SentimentShift :: float64
  Themes :: "ThemeResult list"

record ImpactSummary =
  OverallSuccess :: bool
  SuccessScore :: float64
  KeyImprovements :: "string list"
  CriticalIssues :: "string list"
  Recommendations :: "string list"
  ExecutiveSummary :: string

record AnalysisResult =
  PreLaunchReviews :: ReviewCollection
  PostLaunchReviews :: ReviewCollection
  Comparison :: ComparisonResult
  Impact :: ImpactSummary
  AnalyzedAt :: string

text \<open>
  The conversion \<open>float64(n)\<close> of a Go \<open>int\<close>, and \<open>len\<close> of a slice as an \<open>int\<close>. A Go
  slice has fewer than \<open>2 ^ 63\<close> elements, so on every list that stands for a slice
  \<open>len\<close> is the exact length.
\<close>

definition float64_of_int :: "go_int \<Rightarrow> float64" where
  "float64_of_int n = real_of_int (sint n)"

definition len :: "'a list \<Rightarrow> go_int" where
  "len xs = word_of_nat (length xs)"

text \<open>The zero values \<open>Review{}\<close> and \<open>SentimentSummary{}\<close>.\<close>

definition Review_zero :: Review where
  "Review_zero = \<lparr>ID = [], Date = [], UserID = [], ReviewText = [], Rating = 0, Source = []\<rparr>"

definition SentimentSummary_zero :: SentimentSummary where
  "SentimentSummary_zero = \<lparr>Positive = 0, Negative = 0, Neutral = 0, Average = 0\<rparr>"


section \<open>Aggregator\<close>

text \<open>
  The body of the \<open>switch\<close> in \<open>calculateSentimentSummary\<close>: one sentiment result is
  counted in exactly one of the three buckets, \<open>default\<close> being the neutral one.
\<close>

definition countSentiment :: "SentimentSummary \<Rightarrow> SentimentResult \<Rightarrow> SentimentSummary" where
  "countSentiment summary s =
     (if SentimentResult.Sentiment s = ''positive'' then summary\<lparr>Positive := Positive summary + 1\<rparr>
      else if SentimentResult.Sentiment s = ''negative'' then summary\<lparr>Negative := Negative summary + 1\<rparr>
      else summary\<lparr>Neutral := Neutral summary + 1\<rparr>)"

text \<open>The loop \<open>total += r.Rating\<close>, in Go's wrapping \<open>int\<close> arithmetic.\<close>

definition ratingTotal :: "Review list \<Rightarrow> go_int" where
  "ratingTotal reviews = foldl (\<lambda>total r. total + Rating r) 0 reviews"

definition calculateSentimentSummary :: "SentimentResult list \<Rightarrow> Review list \<Rightarrow> SentimentSummary" where
  "calculateSentimentSummary sentiments reviews =
     (let summary = foldl countSentiment SentimentSummary_zero sentiments
      in if 0 < sint (len reviews)
         then summary\<lparr>Average := float64_of_int (ratingTotal reviews) / float64_of_int (len reviews)\<rparr>
         else summary)"

definition calculateSentimentShift :: "SentimentSummary \<Rightarrow> SentimentSummary \<Rightarrow> float64" where
  "calculateSentimentShift pre post =
     (let preTotal = Positive pre + Negative pre + Neutral pre;
          postTotal = Positive post + Negative post + Neutral post
      in if preTotal = 0 \<or> postTotal = 0 then 0
         else
           let prePositiveRate = float64_of_int (Positive pre) / float64_of_int preTotal * 100;
               postPositiveRate = float64_of_int (Positive post) / float64_of_int postTotal * 100
           in postPositiveRate - prePositiveRate)"

text \<open>
  A side's total classified count and its positive rate as the code computes them, the
  total in wrapping arithmetic.
\<close>

definition classifiedTotal :: "SentimentSummary \<Rightarrow> go_int" where
  "classifiedTotal s = Positive s + Negative s + Neutral s"

definition positiveRate :: "SentimentSummary \<Rightarrow> float64" where
  "positiveRate s = float64_of_int (Positive s) / float64_of_int (classifiedTotal s) * 100"

text \<open>
  The same notions as the specification words them, over the integers: the total
  classified count of a side, its positive rate in percent, and the sum of the ratings
  of a review list. \<open>fitsInt k\<close>: the integer \<open>k\<close> is a value of Go's \<open>int\<close>.
\<close>

definition fitsInt :: "int \<Rightarrow> bool" where
  "fitsInt k = (- (2 ^ 63) \<le> k \<and> k < 2 ^ 63)"

definition totalCount :: "SentimentSummary \<Rightarrow> int" where
  "totalCount s = sint (Positive s) + sint (Negative s) + sint (Neutral s)"

definition positiveRatePercent :: "SentimentSummary \<Rightarrow> real" where
  "positiveRatePercent s = real_of_int (sint (Positive s)) / real_of_int (totalCount s) * 100"

definition ratingSum :: "Review list \<Rightarrow> int" where
  "ratingSum reviews = sum_list (map (\<lambda>r. sint (Rating r)) reviews)"

text \<open>The three sentiment categories as predicates on a result.\<close>

definition isPositive :: "SentimentResult \<Rightarrow> bool" where
  "isPositive s = (SentimentResult.Sentiment s = ''positive'')"

definition isNegative :: "SentimentResult \<Rightarrow> bool" where
  "isNegative s = (SentimentResult.Sentiment s = ''negative'')"

definition isOther :: "SentimentResult \<Rightarrow> bool" where
  "isOther s = (SentimentResult.Sentiment s \<noteq> ''positive'' \<and> SentimentResult.Sentiment s \<noteq> ''negative'')"


section \<open>Errors\<close>

text \<open>
  Go errors as values. \<open>Errorf format args wrapped\<close> is the error built by
  \<open>fmt.Errorf(format, ...)\<close>: the format string is kept as written, \<open>args\<close> are the
  operands of its \<open>%d\<close> and \<open>%s\<close> verbs in order, and \<open>wrapped\<close> is the operand of its
  \<open>%w\<close> verb, if it has one. \<open>LibError\<close> stands for any error value produced inside a
  library (transport, JSON decoding, CSV tokenising).
\<close>

datatype fmt_arg = ArgInt int | ArgStr string

datatype go_error =
    EOF
  | ErrFieldCount
  | ErrSyntax
  | ErrRange
  | LibError string
  | Errorf string "fmt_arg list" "go_error option"

text \<open>\<open>errors.Unwrap\<close> and \<open>errors.Is\<close>: the error wrapped by \<open>%w\<close>, and the search along that chain.\<close>

fun Unwrap :: "go_error \<Rightarrow> go_error option" where
  "Unwrap (Errorf format args wrapped) = wrapped"
| "Unwrap err = None"

fun errors_Is :: "go_error \<Rightarrow> go_error \<Rightarrow> bool" where
  "errors_Is (Errorf format args (Some e)) target =
     (Errorf format args (Some e) = target \<or> errors_Is e target)"
| "errors_Is err target = (err = target)"


section \<open>Response sanitizer\<close>

text \<open>The bytes the two trimming loops skip: space, newline and tab.\<close>

definition isBlank :: "char \<Rightarrow> bool" where
  "isBlank c = (c = CHR '' '' \<or> c = CHR 0x0A \<or> c = CHR 0x09)"

text \<open>The loop of \<open>removePrefix\<close>: \<open>s = s[1:]\<close> while the first byte is blank.\<close>

fun skipLeading :: "string \<Rightarrow> string" where
  "skipLeading [] = []"
| "skipLeading (c # cs) = (if isBlank c then skipLeading cs else c # cs)"

definition removePrefix :: "string \<Rightarrow> string \<Rightarrow> string" where
  "removePrefix s0 prefix =
     (let s = skipLeading s0
      in if length s \<ge> length prefix \<and> take (length prefix) s = prefix
         then drop (length prefix) s
         else s)"

text \<open>The loop of \<open>removeSuffix\<close>: \<open>s = s[:len(s)-1]\<close> while the last byte is blank.\<close>

function skipTrailing :: "string \<Rightarrow> string" where
  "skipTrailing s = (if s \<noteq> [] \<and> isBlank (last s) then skipTrailing (butlast s) else s)"
  by pat_completeness auto
termination
  by (relation "measure length") auto

declare skipTrailing.simps [simp del]

definition removeSuffix :: "string \<Rightarrow> string \<Rightarrow> string" where
  "removeSuffix s0 suffix =
     (let s = skipTrailing s0
      in if length s \<ge> length suffix \<and> drop (length s - length suffix) s = suffix
         then take (length s - length suffix) s
         else s)"

definition cleanJSONResponse :: "string \<Rightarrow> string" where
  \<open>cleanJSONResponse response =
     removeSuffix (removePrefix (removePrefix response ''```json'') ''```'') ''```''\<close>

text \<open>
  A response wrapped in a code fence: blanks, the opening marker, the content, the closing
  marker, blanks. The opening marker is either of the two the sanitizer looks for.
\<close>

definition fenced :: "string \<Rightarrow> string \<Rightarrow> string \<Rightarrow> string \<Rightarrow> string" where
  \<open>fenced ws1 marker s ws2 = ws1 @ marker @ s @ ''```'' @ ws2\<close>


section \<open>Analysis orchestrator\<close>

text \<open>
  The interface \<open>LLMAnalyzer\<close>. A method takes the state of the outside world and returns
  its result with the state it leaves; the result is the error (\<open>Inl\<close>) or the value.
\<close>

record 'w LLMAnalyzer =
  AnalyzeSentiments :: "Review list \<Rightarrow> 'w \<Rightarrow> (go_error + SentimentResult list) \<times> 'w"
  ExtractThemes :: "Review list \<Rightarrow> Review list \<Rightarrow> 'w \<Rightarrow> (go_error + ThemeResult list) \<times> 'w"
  GenerateImpactSummary ::
    "ReviewCollection \<Rightarrow> ReviewCollection \<Rightarrow> ComparisonResult \<Rightarrow> 'w \<Rightarrow> (go_error + ImpactSummary) \<times> 'w"

text \<open>
  \<open>Analyze\<close> returns the pair \<open>(*AnalysisResult, error)\<close> of the source, \<open>None\<close> being
  \<open>nil\<close>. \<open>now\<close> is the RFC 3339 rendering of \<open>time.Now()\<close> at the end of the run.
\<close>

definition Analyze ::
  "'w LLMAnalyzer \<Rightarrow> Review list \<Rightarrow> Review list \<Rightarrow> string \<Rightarrow> 'w
     \<Rightarrow> (AnalysisResult option \<times> go_error option) \<times> 'w" where
  "Analyze llmClient preReviews postReviews now w =
     (let preCollection = \<lparr>Reviews = preReviews, Type = ''pre_launch'', Count = len preReviews\<rparr>;
          postCollection = \<lparr>Reviews = postReviews, Type = ''post_launch'', Count = len postReviews\<rparr>
      in case AnalyzeSentiments llmClient preReviews w of
           (Inl err, w1) \<Rightarrow>
             ((None, Some (Errorf ''failed to analyze pre-launch sentiments: %w'' [] (Some err))), w1)
         | (Inr preSentiments, w1) \<Rightarrow>
            (case AnalyzeSentiments llmClient postReviews w1 of
               (Inl err, w2) \<Rightarrow>
                 ((None, Some (Errorf ''failed to analyze post-launch sentiments: %w'' [] (Some err))), w2)
             | (Inr postSentiments, w2) \<Rightarrow>
                (let preSummary = calculateSentimentSummary preSentiments preReviews;
                     postSummary = calculateSentimentSummary postSentiments postReviews
                 in case ExtractThemes llmClient preReviews postReviews w2 of
                      (Inl err, w3) \<Rightarrow>
                        ((None, Some (Errorf ''failed to extract themes: %w'' [] (Some err))), w3)
                    | (Inr themes, w3) \<Rightarrow>
                       (let sentimentShift = calculateSentimentShift preSummary postSummary;
                            comparison = \<lparr>PreLaunchSentiment = preSummary,
                                          PostLaunchSentiment = postSummary,
                                          SentimentShift = sentimentShift,
                                          Themes = themes\<rparr>
                        in case GenerateImpactSummary llmClient preCollection postCollection comparison w3 of
                             (Inl err, w4) \<Rightarrow>
                               ((None, Some (Errorf ''failed to generate impact summary: %w'' [] (Some err))), w4)
                           | (Inr impact, w4) \<Rightarrow>
                               ((Some \<lparr>PreLaunchReviews = preCollection,
                                       PostLaunchReviews = postCollection,
                                       Comparison = comparison,
                                       Impact = impact,
                                       AnalyzedAt = now\<rparr>, None), w4)))))"

text \<open>
  A test double of the interface: the world is the number of calls made so far, and the
  call with number \<open>k\<close> fails; every other call returns a fixed answer.
\<close>

definition stubError :: go_error where
  "stubError = Errorf ''failed to parse sentiment results: %w, response: %s''
     [ArgStr ''not json''] (Some (LibError ''invalid character''))"

definition stubImpact :: ImpactSummary where
  "stubImpact = \<lparr>OverallSuccess = True, SuccessScore = 75, KeyImprovements = [],
     CriticalIssues = [], Recommendations = [], ExecutiveSummary = ''ok''\<rparr>"

definition failingAt :: "nat \<Rightarrow> nat LLMAnalyzer" where
  "failingAt k =
     \<lparr>AnalyzeSentiments = (\<lambda>reviews n. (if n = k then Inl stubError else Inr [], Suc n)),
      ExtractThemes = (\<lambda>pre post n. (if n = k then Inl stubError else Inr [], Suc n)),
      GenerateImpactSummary = (\<lambda>pre post c n. (if n = k then Inl stubError else Inr stubImpact, Suc n))\<rparr>"


section \<open>Tabular parser\<close>

text \<open>
  The reader of \<open>encoding/csv\<close>, a library outside the repository, after its documented
  behaviour. The input is taken as already split into rows: a row is the list of its
  fields, or the error the tokeniser raises on it. \<open>Read\<close> returns \<open>io.EOF\<close> when no row
  is left. With \<open>FieldsPerRecord\<close> 0, as \<open>NewReader\<close> leaves it, the first record sets
  the expected number of fields; a later record of another length is returned with
  \<open>ErrFieldCount\<close>. A record of the library has at least one field.
\<close>

record csv_Reader =
  pending :: "(go_error + string list) list"
  FieldsPerRecord :: int

definition csv_NewReader :: "(go_error + string list) list \<Rightarrow> csv_Reader" where
  "csv_NewReader rows = \<lparr>pending = rows, FieldsPerRecord = 0\<rparr>"

definition csv_Read :: "csv_Reader \<Rightarrow> (go_error + string list) \<times> csv_Reader" where
  "csv_Read r =
     (case pending r of
        [] \<Rightarrow> (Inl EOF, r)
      | row # rest \<Rightarrow>
         (case row of
            Inl err \<Rightarrow> (Inl err, r\<lparr>pending := rest\<rparr>)
          | Inr record \<Rightarrow>
              if FieldsPerRecord r > 0
              then (if int (length record) \<noteq> FieldsPerRecord r
                    then (Inl ErrFieldCount, r\<lparr>pending := rest\<rparr>)
                    else (Inr record, r\<lparr>pending := rest\<rparr>))
              else if FieldsPerRecord r = 0
              then (Inr record, r\<lparr>pending := rest, FieldsPerRecord := int (length record)\<rparr>)
              else (Inr record, r\<lparr>pending := rest\<rparr>)))"

text \<open>
  An input given line by line: a line is blank or holds one row. The reader skips blank
  lines, so the rows are the records it delivers. Quoted fields that span several lines
  are outside this model.
\<close>

datatype csv_line = BlankLine | RecordLine "go_error + string list"

fun csv_records :: "csv_line list \<Rightarrow> (go_error + string list) list" where
  "csv_records [] = []"
| "csv_records (BlankLine # lines) = csv_records lines"
| "csv_records (RecordLine row # lines) = row # csv_records lines"

text \<open>
  The column index map: \<open>colIndex[col] = i\<close> for every header cell in order, so the last
  column of a name is the one kept.
\<close>

definition buildColIndex :: "string list \<Rightarrow> (string \<rightharpoonup> nat)" where
  "buildColIndex header = foldl (\<lambda>colIndex (i, col). colIndex(col \<mapsto> i)) Map.empty (enumerate 0 header)"

text \<open>The guarded access \<open>if idx, ok := colIndex[name]; ok && idx < len(record)\<close>.\<close>

definition field :: "(string \<rightharpoonup> nat) \<Rightarrow> string \<Rightarrow> string list \<Rightarrow> string option" where
  "field colIndex name record =
     (case colIndex name of
        None \<Rightarrow> None
      | Some idx \<Rightarrow> if idx < length record then Some (record ! idx) else None)"

text \<open>
  The body of the loop of \<open>ParseCSV\<close> that fills one \<open>Review\<close>. \<open>strconv.Atoi\<close> is a
  library function and a parameter here: it returns the integer or an error.
\<close>

definition reviewOfRecord ::
  "(string \<Rightarrow> go_error + go_int) \<Rightarrow> (string \<rightharpoonup> nat) \<Rightarrow> string list \<Rightarrow> Review" where
  "reviewOfRecord Atoi colIndex record =
     (let review = Review_zero;
          review = (case field colIndex ''id'' record of
                      Some v \<Rightarrow> review\<lparr>ID := v\<rparr> | None \<Rightarrow> review);
          review = (case field colIndex ''date'' record of
                      Some v \<Rightarrow> review\<lparr>Date := v\<rparr> | None \<Rightarrow> review);
          review = (case field colIndex ''user_id'' record of
                      Some v \<Rightarrow> review\<lparr>UserID := v\<rparr> | None \<Rightarrow> review);
          review = (case field colIndex ''review_text'' record of
                      Some v \<Rightarrow> review\<lparr>ReviewText := v\<rparr> | None \<Rightarrow> review);
          review = (case field colIndex ''rating'' record of
                      Some v \<Rightarrow> (case Atoi v of
                                   Inr rating \<Rightarrow> review\<lparr>Rating := rating\<rparr>
                                 | Inl err \<Rightarrow> review)
                    | None \<Rightarrow> review);
          review = (case field colIndex ''source'' record of
                      Some v \<Rightarrow> review\<lparr>Source := v\<rparr> | None \<Rightarrow> review)
      in review)"

text \<open>
  The reading loop. \<open>lineNum\<close> is the counter of the source, incremented before each
  \<open>Read\<close>; it counts records, so it is an unbounded integer here.
\<close>

function readRows ::
  "(string \<Rightarrow> go_error + go_int) \<Rightarrow> (string \<rightharpoonup> nat) \<Rightarrow> csv_Reader \<Rightarrow> Review list \<Rightarrow> int
     \<Rightarrow> go_error + Review list" where
  "readRows Atoi colIndex csvReader reviews lineNum =
     (case csv_Read csvReader of
        (Inl err, csvReader') \<Rightarrow>
          if err = EOF then Inr reviews
          else Inl (Errorf ''error reading line %d: %w'' [ArgInt (lineNum + 1)] (Some err))
      | (Inr record, csvReader') \<Rightarrow>
          readRows Atoi colIndex csvReader' (reviews @ [reviewOfRecord Atoi colIndex record]) (lineNum + 1))"
  by pat_completeness auto
termination
  by (relation "measure (\<lambda>(Atoi, colIndex, csvReader, reviews, lineNum). length (pending csvReader))")
    (auto simp: csv_Read_def split: list.splits sum.splits if_splits)

declare readRows.simps [simp del]

definition ParseCSV ::
  "(string \<Rightarrow> go_error + go_int) \<Rightarrow> (go_error + string list) list \<Rightarrow> go_error + Review list" where
  "ParseCSV Atoi input =
     (case csv_Read (csv_NewReader input) of
        (Inl err, csvReader) \<Rightarrow> Inl (Errorf ''failed to read CSV header: %w'' [] (Some err))
      | (Inr header, csvReader) \<Rightarrow> readRows Atoi (buildColIndex header) csvReader [] 1)"

text \<open>The column names the parser looks up.\<close>

definition recognized :: "string set" where
  "recognized = {''id'', ''date'', ''user_id'', ''review_text'', ''rating'', ''source''}"

text \<open>
  \<open>lastAt header name i\<close>: the cell \<open>i\<close> of the header is the last one that holds
  \<open>name\<close>.
\<close>

definition lastAt :: "string list \<Rightarrow> string \<Rightarrow> nat \<Rightarrow> bool" where
  "lastAt header name i = (i < length header \<and> header ! i = name \<and> name \<notin> set (drop (Suc i) header))"

text \<open>
  A decimal reading of integers for concrete runs: an optional sign and digits, with the
  range check of a 64-bit \<open>int\<close>.
\<close>

definition digitValue :: "char \<Rightarrow> nat option" where
  "digitValue c =
     (if c = CHR ''0'' then Some 0 else if c = CHR ''1'' then Some 1
      else if c = CHR ''2'' then Some 2 else if c = CHR ''3'' then Some 3
      else if c = CHR ''4'' then Some 4 else if c = CHR ''5'' then Some 5
      else if c = CHR ''6'' then Some 6 else if c = CHR ''7'' then Some 7
      else if c = CHR ''8'' then Some 8 else if c = CHR ''9'' then Some 9
      else None)"

fun decimalValue :: "nat \<Rightarrow> string \<Rightarrow> nat option" where
  "decimalValue acc [] = Some acc"
| "decimalValue acc (c # cs) =
     (case digitValue c of None \<Rightarrow> None | Some d \<Rightarrow> decimalValue (10 * acc + d) cs)"

definition decimalAtoi :: "string \<Rightarrow> go_error + go_int" where
  "decimalAtoi s =
     (let neg = (s \<noteq> [] \<and> hd s = CHR ''-'');
          digits = (if s \<noteq> [] \<and> (hd s = CHR ''-'' \<or> hd s = CHR ''+'') then tl s else s)
      in if digits = [] then Inl ErrSyntax
         else case decimalValue 0 digits of
                None \<Rightarrow> Inl ErrSyntax
              | Some n \<Rightarrow>
                  if neg then (if n > 2 ^ 63 then Inl ErrRange else Inr (- word_of_nat n))
                  else (if n \<ge> 2 ^ 63 then Inl ErrRange else Inr (word_of_nat n)))"


section \<open>Inference gateway\<close>

record GroqClient =
  apiKey :: string
  baseURL :: string
  model :: string

definition NewGroqClient :: "string \<Rightarrow> GroqClient" where
  "NewGroqClient key =
     \<lparr>apiKey = key, baseURL = ''https://api.groq.com/openai/v1'', model = ''llama-3.3-70b-versatile''\<rparr>"

record GroqMessage =
  Role :: string
  Content :: string

record GroqRequest =
  Model :: string
  Messages :: "GroqMessage list"

text \<open>
  \<open>GroqResponse\<close>: the message content of each choice, and the message of the error
  object when the payload has one.
\<close>

record GroqResponse =
  Choices :: "string list"
  Error :: "string option"

text \<open>
  An HTTP request as \<open>callGroqAPI\<close> builds it, and a response as it reads it: the status
  code and what \<open>io.ReadAll\<close> of the body returns.
\<close>

record http_Request =
  Method :: string
  URL :: string
  Header :: "string \<rightharpoonup> string"
  Body :: string

record http_Response =
  StatusCode :: int
  ReadAll :: "go_error + string"

text \<open>
  The libraries and the provider behind the gateway, which are outside the repository,
  as parameters: the JSON encoder and decoders, the constructor of requests, and the
  network, whose answer to a request may depend on the requests sent before it.
\<close>

record Env =
  json_Marshal :: "GroqRequest \<Rightarrow> go_error + string"
  http_NewRequest :: "string \<Rightarrow> string \<Rightarrow> string \<Rightarrow> go_error + http_Request"
  client_Do :: "http_Request list \<Rightarrow> http_Request \<Rightarrow> go_error + http_Response"
  decode_GroqResponse :: "string \<Rightarrow> go_error + GroqResponse"
  decode_SentimentResults :: "string \<Rightarrow> go_error + SentimentResult list"
  decode_ThemeResults :: "string \<Rightarrow> go_error + ThemeResult list"

text \<open>The state of the outside world: the requests handed to the network so far.\<close>

record World =
  sent :: "http_Request list"

definition http_StatusOK :: int where
  "http_StatusOK = 200"

definition callGroqAPI :: "Env \<Rightarrow> GroqClient \<Rightarrow> string \<Rightarrow> World \<Rightarrow> (go_error + string) \<times> World" where
  "callGroqAPI env g prompt w =
     (let url = baseURL g @ ''/chat/completions'';
          request = \<lparr>Model = model g, Messages = [\<lparr>Role = ''user'', Content = prompt\<rparr>]\<rparr>
      in case json_Marshal env request of
           Inl err \<Rightarrow> (Inl (Errorf ''failed to marshal request: %w'' [] (Some err)), w)
         | Inr jsonData \<Rightarrow>
            (case http_NewRequest env ''POST'' url jsonData of
               Inl err \<Rightarrow> (Inl (Errorf ''failed to create request: %w'' [] (Some err)), w)
             | Inr req0 \<Rightarrow>
                (let req = req0\<lparr>Header := (Header req0)
                             (''Content-Type'' \<mapsto> ''application/json'',
                              ''Authorization'' \<mapsto> ''Bearer '' @ apiKey g)\<rparr>;
                     w' = w\<lparr>sent := sent w @ [req]\<rparr>
                 in case client_Do env (sent w) req of
                      Inl err \<Rightarrow> (Inl (Errorf ''failed to call Groq API: %w'' [] (Some err)), w')
                    | Inr resp \<Rightarrow>
                       (case ReadAll resp of
                          Inl err \<Rightarrow> (Inl (Errorf ''failed to read response: %w'' [] (Some err)), w')
                        | Inr body \<Rightarrow>
                           if StatusCode resp \<noteq> http_StatusOK
                           then (Inl (Errorf ''Groq API error (status %d): %s''
                                        [ArgInt (StatusCode resp), ArgStr body] None), w')
                           else
                            (case decode_GroqResponse env body of
                               Inl err \<Rightarrow> (Inl (Errorf ''failed to parse response: %w'' [] (Some err)), w')
                             | Inr groqResp \<Rightarrow>
                                (case Error groqResp of
                                   Some message \<Rightarrow>
                                     (Inl (Errorf ''Groq API error: %s'' [ArgStr message] None), w')
                                 | None \<Rightarrow>
                                     if length (Choices groqResp) = 0
                                     then (Inl (Errorf ''empty response from Groq'' [] None), w')
                                     else (Inr (hd (Choices groqResp)), w')))))))"

text \<open>The verb \<open>%d\<close> of \<open>fmt.Sprintf\<close> on an \<open>int\<close>: the signed decimal numeral.\<close>

function natDigits :: "nat \<Rightarrow> string" where
  "natDigits n =
     (if n < 10 then [''0123456789'' ! n]
      else natDigits (n div 10) @ [''0123456789'' ! (n mod 10)])"
  by pat_completeness auto
termination
  by (relation "measure id") auto

declare natDigits.simps [simp del]

definition formatInt :: "go_int \<Rightarrow> string" where
  "formatInt n = (if sint n < 0 then CHR ''-'' # natDigits (nat (- sint n)) else natDigits (nat (sint n)))"

definition newline :: string where
  "newline = [CHR 0x0A]"

text \<open>The two prompts, with the text of the source; \<open>%s\<close> splices its operand in.\<close>

definition sentimentsReviewsText :: "Review list \<Rightarrow> string" where
  "sentimentsReviewsText reviews =
     foldl (\<lambda>reviewsText r. reviewsText @
              ''ID: '' @ ID r @ '' | Rating: '' @ formatInt (Rating r) @ '' | Review: '' @ ReviewText r @ newline)
       [] reviews"

definition sentimentsPrompt :: "string \<Rightarrow> string" where
  \<open>sentimentsPrompt reviewsText =
     ''Analyze the sentiment of these customer reviews. For each review, classify as "positive", "negative", or "neutral" with a confidence score (0-1).''
     @ newline @ newline @ ''Reviews:'' @ newline @ reviewsText @ newline @ newline
     @ ''Respond ONLY with a valid JSON array in this exact format (no markdown, no explanation):''
     @ newline
     @ ''[{"review_id": "id", "sentiment": "positive/negative/neutral", "score": 0.95}]''\<close>

definition formatReviewsForThemes :: "Review list \<Rightarrow> string" where
  "formatReviewsForThemes reviews =
     foldl (\<lambda>result r. result @
              ''- '' @ ReviewText r @ '' (Rating: '' @ formatInt (Rating r) @ '')'' @ newline)
       [] reviews"

definition themesPrompt :: "string \<Rightarrow> string \<Rightarrow> string" where
  \<open>themesPrompt preText postText =
     ''Analyze and compare themes between pre-launch and post-launch customer reviews.''
     @ newline @ newline @ ''PRE-LAUNCH REVIEWS:'' @ newline @ preText @ newline @ newline
     @ ''POST-LAUNCH REVIEWS:'' @ newline @ postText @ newline @ newline
     @ ''Extract the top 8 themes mentioned across both sets. For each theme, count occurrences in pre and post launch, calculate percentage change, and determine overall sentiment.''
     @ newline @ newline
     @ ''Respond ONLY with a valid JSON array in this exact format (no markdown, no explanation):''
     @ newline
     @ ''[{"theme": "theme name", "pre_count": 5, "post_count": 8, "change_rate": 60.0, "sentiment": "positive/negative/neutral"}]''\<close>

definition GroqClient_AnalyzeSentiments ::
  "Env \<Rightarrow> GroqClient \<Rightarrow> Review list \<Rightarrow> World \<Rightarrow> (go_error + SentimentResult list) \<times> World" where
  "GroqClient_AnalyzeSentiments env g reviews w =
     (if length reviews = 0 then (Inr [], w)
      else
        let prompt = sentimentsPrompt (sentimentsReviewsText reviews)
        in case callGroqAPI env g prompt w of
             (Inl err, w') \<Rightarrow> (Inl err, w')
           | (Inr response0, w') \<Rightarrow>
              (let response = cleanJSONResponse response0
               in case decode_SentimentResults env response of
                    Inl err \<Rightarrow>
                      (Inl (Errorf ''failed to parse sentiment results: %w, response: %s''
                              [ArgStr response] (Some err)), w')
                  | Inr results \<Rightarrow> (Inr results, w')))"

definition GroqClient_ExtractThemes ::
  "Env \<Rightarrow> GroqClient \<Rightarrow> Review list \<Rightarrow> Review list \<Rightarrow> World \<Rightarrow> (go_error + ThemeResult list) \<times> World" where
  "GroqClient_ExtractThemes env g preReviews postReviews w =
     (let preText = formatReviewsForThemes preReviews;
          postText = formatReviewsForThemes postReviews;
          prompt = themesPrompt preText postText
      in case callGroqAPI env g prompt w of
           (Inl err, w') \<Rightarrow> (Inl err, w')
         | (Inr response0, w') \<Rightarrow>
            (let response = cleanJSONResponse response0
             in case decode_ThemeResults env response of
                  Inl err \<Rightarrow>
                    (Inl (Errorf ''failed to parse theme results: %w, response: %s''
                            [ArgStr response] (Some err)), w')
                | Inr results \<Rightarrow> (Inr results, w')))"

text \<open>
  The request \<open>callGroqAPI\<close> sends for a prompt, given the encoded payload and the
  request the constructor returned.
\<close>

definition requestFor :: "GroqClient \<Rightarrow> http_Request \<Rightarrow> http_Request" where
  "requestFor g req0 =
     req0\<lparr>Header := (Header req0)
            (''Content-Type'' \<mapsto> ''application/json'', ''Authorization'' \<mapsto> ''Bearer '' @ apiKey g)\<rparr>"

text \<open>
  An environment for concrete runs: the encoder returns the prompt, the constructor
  builds the request from its arguments, the decoders accept nothing, and the network is
  down.
\<close>

definition offlineEnv :: Env where
  "offlineEnv =
     \<lparr>json_Marshal = (\<lambda>request. Inr (concat (map Content (Messages request)))),
      http_NewRequest = (\<lambda>method url body.
         Inr \<lparr>Method = method, URL = url, Header = Map.empty, Body = body\<rparr>),
      client_Do = (\<lambda>history req. Inl (LibError ''dial tcp: connection refused'')),
      decode_GroqResponse = (\<lambda>body. Inl (LibError ''unexpected end of JSON input'')),
      decode_SentimentResults = (\<lambda>body. Inl (LibError ''unexpected end of JSON input'')),
      decode_ThemeResults = (\<lambda>body. Inl (LibError ''unexpected end of JSON input''))\<rparr>"


section \<open>Properties of the aggregator\<close>

lemma countSentiment_buckets:
  "countSentiment acc x =
     (if isPositive x then acc\<lparr>Positive := Positive acc + 1\<rparr>
      else if isNegative x then acc\<lparr>Negative := Negative acc + 1\<rparr>
      else acc\<lparr>Neutral := Neutral acc + 1\<rparr>)"
  by (simp add: countSentiment_def isPositive_def isNegative_def)

lemma isOther_iff: "isOther x = (\<not> isPositive x \<and> \<not> isNegative x)"
  by (simp add: isPositive_def isNegative_def isOther_def)

lemma not_both: "isPositive x \<Longrightarrow> \<not> isNegative x"
  by (simp add: isPositive_def isNegative_def)

lemma foldl_countSentiment:
  "foldl countSentiment acc xs =
     acc\<lparr>Positive := Positive acc + word_of_nat (length (filter isPositive xs)),
         Negative := Negative acc + word_of_nat (length (filter isNegative xs)),
         Neutral := Neutral acc + word_of_nat (length (filter isOther xs))\<rparr>"
proof (induction xs arbitrary: acc)
  case Nil
  then show ?case by simp
next
  case (Cons x xs)
  show ?case
    unfolding foldl_Cons Cons.IH
    using isOther_iff [of x] not_both [of x]
    by (auto simp add: countSentiment_buckets add.assoc)
qed

lemma filter_partition3:
  "length (filter isPositive xs) + length (filter isNegative xs) + length (filter isOther xs) = length xs"
proof (induction xs)
  case Nil
  then show ?case by simp
next
  case (Cons x xs)
  then show ?case
    using isOther_iff [of x] not_both [of x] by auto
qed

lemma ratingTotal_sum_list: "foldl (\<lambda>total r. total + Rating r) a reviews = a + sum_list (map Rating reviews)"
  by (induction reviews arbitrary: a) (simp_all add: add.assoc)

lemma sint_of_nat_small:
  assumes "n < 2 ^ 63"
  shows "sint (word_of_nat n :: 64 word) = int n"
proof -
  have "sint (word_of_int (int n) :: 64 word) = signed_take_bit 63 (int n)"
    by (simp only: sint_sbintrunc') simp
  also have "\<dots> = int n"
    using assms by (intro signed_take_bit_int_eq_self) auto
  finally show ?thesis by simp
qed

lemma sum_list_Rating_of_int:
  "sum_list (map Rating reviews) = (word_of_int (sum_list (map (\<lambda>r. sint (Rating r)) reviews)) :: 64 word)"
  by (induction reviews) simp_all

lemma summary_counts:
  "Positive (calculateSentimentSummary sentiments reviews) = len (filter isPositive sentiments)"
  "Negative (calculateSentimentSummary sentiments reviews) = len (filter isNegative sentiments)"
  "Neutral (calculateSentimentSummary sentiments reviews) = len (filter isOther sentiments)"
  by (simp_all add: calculateSentimentSummary_def foldl_countSentiment SentimentSummary_zero_def len_def Let_def)

lemma summary_average:
  "Average (calculateSentimentSummary sentiments reviews) =
     (if 0 < sint (len reviews) then float64_of_int (ratingTotal reviews) / float64_of_int (len reviews) else 0)"
  by (simp add: calculateSentimentSummary_def foldl_countSentiment SentimentSummary_zero_def Let_def)


lemma sint_add_nonneg:
  fixes a b :: "64 word"
  assumes "0 \<le> sint a" "0 \<le> sint b" "sint a + sint b < 2 ^ 63"
  shows "sint (a + b) = sint a + sint b"
proof -
  have "sint (a + b) = signed_take_bit 63 (sint a + sint b)"
    by (simp add: sint_word_add)
  also have "\<dots> = sint a + sint b"
    using assms by (intro signed_take_bit_int_eq_self) auto
  finally show ?thesis .
qed

lemma sint_add3:
  fixes a b c :: "64 word"
  assumes "0 \<le> sint a" "0 \<le> sint b" "0 \<le> sint c" "sint a + sint b + sint c < 2 ^ 63"
  shows "sint (a + b + c) = sint a + sint b + sint c"
proof -
  have ab: "sint (a + b) = sint a + sint b"
    using assms by (intro sint_add_nonneg) auto
  have "sint (a + b + c) = sint (a + b) + sint c"
    using assms ab by (intro sint_add_nonneg) auto
  with ab show ?thesis by simp
qed

lemma rate_real_bounds:
  fixes p t :: real
  assumes "0 \<le> p" "p \<le> t"
  shows "0 \<le> p / t * 100 \<and> p / t * 100 \<le> 100"
proof (cases "t = 0")
  case True
  then show ?thesis by simp
next
  case False
  with assms have "0 < t" by linarith
  with assms have "0 \<le> p / t" "p / t \<le> 1" by simp_all
  then have "0 \<le> (p / t) * 100" "(p / t) * 100 \<le> 1 * 100"
    by (simp_all only: mult_right_mono zero_le_mult_iff) simp_all
  then show ?thesis by (simp only: mult_1 simp_thms)
qed

lemma positiveRate_bounds:
  assumes "0 \<le> sint (Positive s)" "0 \<le> sint (Negative s)" "0 \<le> sint (Neutral s)"
    and "sint (Positive s) + sint (Negative s) + sint (Neutral s) < 2 ^ 63"
  shows "0 \<le> positiveRate s \<and> positiveRate s \<le> 100"
proof -
  have t: "sint (Positive s + Negative s + Neutral s) = sint (Positive s) + sint (Negative s) + sint (Neutral s)"
    using assms by (rule sint_add3)
  have p0: "0 \<le> real_of_int (sint (Positive s))"
    using assms(1) by (simp only: of_int_0_le_iff)
  have "sint (Positive s) \<le> sint (Positive s + Negative s + Neutral s)"
    using assms(2,3) t by linarith
  then have pt: "real_of_int (sint (Positive s)) \<le> real_of_int (sint (Positive s + Negative s + Neutral s))"
    by (simp only: of_int_le_iff)
  show ?thesis
    unfolding positiveRate_def classifiedTotal_def float64_of_int_def
    using p0 pt by (rule rate_real_bounds)
qed

lemma shift_by_rates:
  "calculateSentimentShift pre post =
     (if classifiedTotal pre = 0 \<or> classifiedTotal post = 0 then 0
      else positiveRate post - positiveRate pre)"
  by (simp add: calculateSentimentShift_def classifiedTotal_def positiveRate_def Let_def)

lemma sint_of_int_fits: "fitsInt k \<Longrightarrow> sint (word_of_int k :: 64 word) = k"
proof -
  assume "fitsInt k"
  have "sint (word_of_int k :: 64 word) = signed_take_bit 63 k"
    by (simp only: sint_sbintrunc') simp
  also have "\<dots> = k"
    using \<open>fitsInt k\<close> by (intro signed_take_bit_int_eq_self) (simp_all add: fitsInt_def)
  finally show ?thesis .
qed

lemma classifiedTotal_of_int: "classifiedTotal s = word_of_int (totalCount s)"
  by (simp add: classifiedTotal_def totalCount_def)

lemma sint_classifiedTotal: "fitsInt (totalCount s) \<Longrightarrow> sint (classifiedTotal s) = totalCount s"
  by (simp only: classifiedTotal_of_int sint_of_int_fits)

lemma classifiedTotal_zero_iff:
  assumes "fitsInt (totalCount s)"
  shows "(classifiedTotal s = 0) = (totalCount s = 0)"
proof
  assume "classifiedTotal s = 0"
  then have "sint (classifiedTotal s) = 0" by simp
  with assms show "totalCount s = 0" by (simp only: sint_classifiedTotal)
next
  assume "totalCount s = 0"
  then show "classifiedTotal s = 0" by (simp add: classifiedTotal_of_int)
qed

lemma positiveRate_percent: "fitsInt (totalCount s) \<Longrightarrow> positiveRate s = positiveRatePercent s"
  by (simp only: positiveRate_def positiveRatePercent_def float64_of_int_def sint_classifiedTotal)

text \<open>
  C1, as stated: the shift is 0 when the total classified count of either side is 0, and
  otherwise the positive rate of the post side minus that of the pre side. Over the
  integers it fails where a total wraps around: the counts \<open>2 ^ 63 - 1\<close>,
  \<open>2 ^ 63 - 1\<close> and 2 add up to \<open>2 ^ 64\<close>, which the code computes as 0, so it returns
  0 although neither total is 0 and the two positive rates differ.
\<close>

theorem calculateSentimentShift_spec_counterexample:
  "totalCount \<lparr>Positive = 9223372036854775807, Negative = 9223372036854775807, Neutral = 2, Average = 0\<rparr> = 2 ^ 64
   \<and> totalCount \<lparr>Positive = 1, Negative = 0, Neutral = 0, Average = 0\<rparr> = 1
   \<and> calculateSentimentShift
        \<lparr>Positive = 9223372036854775807, Negative = 9223372036854775807, Neutral = 2, Average = 0\<rparr>
        \<lparr>Positive = 1, Negative = 0, Neutral = 0, Average = 0\<rparr> = 0
   \<and> positiveRatePercent \<lparr>Positive = 1, Negative = 0, Neutral = 0, Average = 0\<rparr>
       - positiveRatePercent
           \<lparr>Positive = 9223372036854775807, Negative = 9223372036854775807, Neutral = 2, Average = 0\<rparr>
       \<noteq> 0"
  by (simp add: calculateSentimentShift_def totalCount_def positiveRatePercent_def)

text \<open>
  C1, amended: for two summaries whose total positive + negative + neutral is a value
  of Go's \<open>int\<close> on each side, \<open>calculateSentimentShift\<close> returns 0 when either total
  is 0, and otherwise the positive rate of the post side minus that of the pre side,
  the positive rate of a side being positive / (positive + negative + neutral) * 100
  over that side's own total.
\<close>

theorem calculateSentimentShift_spec:
  assumes "fitsInt (totalCount pre)" "fitsInt (totalCount post)"
  shows "calculateSentimentShift pre post =
     (if totalCount pre = 0 \<or> totalCount post = 0 then 0
      else positiveRatePercent post - positiveRatePercent pre)"
  using assms
  by (simp add: shift_by_rates classifiedTotal_zero_iff positiveRate_percent)

text \<open>
  The scenario of the specification: one positive and one negative result before the
  launch, two positive ones after it, give a shift of 100 - 50 = 50; an empty side gives 0.
\<close>

theorem calculateSentimentShift_spec_witness:
  "calculateSentimentShift
     \<lparr>Positive = 1, Negative = 1, Neutral = 0, Average = 3\<rparr>
     \<lparr>Positive = 2, Negative = 0, Neutral = 0, Average = 5\<rparr> = 50
   \<and> calculateSentimentShift
     \<lparr>Positive = 0, Negative = 0, Neutral = 0, Average = 0\<rparr>
     \<lparr>Positive = 2, Negative = 0, Neutral = 0, Average = 5\<rparr> = 0"
  using
    calculateSentimentShift_spec [of "\<lparr>Positive = 1, Negative = 1, Neutral = 0, Average = 3\<rparr>"
      "\<lparr>Positive = 2, Negative = 0, Neutral = 0, Average = 5\<rparr>"]
    calculateSentimentShift_spec [of "\<lparr>Positive = 0, Negative = 0, Neutral = 0, Average = 0\<rparr>"
      "\<lparr>Positive = 2, Negative = 0, Neutral = 0, Average = 5\<rparr>"]
  by (simp add: fitsInt_def totalCount_def positiveRatePercent_def)

text \<open>
  C2, as stated: the average is the sum of the ratings divided by the number of
  reviews, for every review list. It fails where the sum of the ratings wraps around:
  the ratings \<open>2 ^ 63 - 1\<close> and 1 add up to \<open>2 ^ 63\<close>, which the code computes as
  \<open>- (2 ^ 63)\<close>, and the average is \<open>- (2 ^ 62)\<close> where the sum over the count is
  \<open>2 ^ 62\<close>. Both values are powers of two, which \<open>float64\<close> holds exactly.
\<close>

theorem calculateSentimentSummary_average_counterexample:
  "ratingSum [Review_zero\<lparr>Rating := 9223372036854775807\<rparr>, Review_zero\<lparr>Rating := 1\<rparr>] = 2 ^ 63
   \<and> real_of_int (ratingSum [Review_zero\<lparr>Rating := 9223372036854775807\<rparr>, Review_zero\<lparr>Rating := 1\<rparr>])
       / real (length [Review_zero\<lparr>Rating := 9223372036854775807\<rparr>, Review_zero\<lparr>Rating := 1\<rparr>]) = 2 ^ 62
   \<and> Average (calculateSentimentSummary []
        [Review_zero\<lparr>Rating := 9223372036854775807\<rparr>, Review_zero\<lparr>Rating := 1\<rparr>]) = - (2 ^ 62)"
  by (simp add: ratingSum_def Review_zero_def calculateSentimentSummary_def SentimentSummary_zero_def
      ratingTotal_def len_def float64_of_int_def)


text \<open>
  C2, amended: the counts of \<open>calculateSentimentSummary\<close> add up to the number of
  sentiment results, whatever the review list is: as Go integers without condition, and
  as signed values for every list a slice can hold. A result is counted as positive or
  negative when its sentiment is exactly that string, and as neutral in every other
  case. The average is 0 for the empty review list; for a review list, of a length a
  slice can hold, whose ratings add up to a value of Go's \<open>int\<close> it is that sum
  divided by the number of reviews.
\<close>

theorem calculateSentimentSummary_counts_and_average:
  fixes sentiments :: "SentimentResult list" and reviews :: "Review list"
  defines "S \<equiv> calculateSentimentSummary sentiments reviews"
  shows "Positive S + Negative S + Neutral S = len sentiments
    \<and> Positive S = len (filter isPositive sentiments)
    \<and> Negative S = len (filter isNegative sentiments)
    \<and> Neutral S = len (filter isOther sentiments)
    \<and> (length sentiments < 2 ^ 63 \<longrightarrow>
         sint (Positive S) + sint (Negative S) + sint (Neutral S) = int (length sentiments))
    \<and> (reviews = [] \<longrightarrow> Average S = 0)
    \<and> (reviews \<noteq> [] \<and> length reviews < 2 ^ 63 \<and> fitsInt (ratingSum reviews) \<longrightarrow>
         Average S = real_of_int (ratingSum reviews) / real (length reviews))"
proof -
  let ?a = "length (filter isPositive sentiments)"
  let ?b = "length (filter isNegative sentiments)"
  let ?c = "length (filter isOther sentiments)"
  have abc: "?a + ?b + ?c = length sentiments"
    by (rule filter_partition3)
  have P: "Positive S = len (filter isPositive sentiments)"
    and N: "Negative S = len (filter isNegative sentiments)"
    and U: "Neutral S = len (filter isOther sentiments)"
    unfolding S_def by (rule summary_counts)+
  have total: "Positive S + Negative S + Neutral S = len sentiments"
  proof -
    have "Positive S + Negative S + Neutral S = (word_of_nat (?a + ?b + ?c) :: 64 word)"
      by (simp add: P N U len_def)
    then show ?thesis by (simp only: abc len_def)
  qed
  have signed: "sint (Positive S) + sint (Negative S) + sint (Neutral S) = int (length sentiments)"
    if "length sentiments < 2 ^ 63"
  proof -
    from that abc have "?a < 2 ^ 63" "?b < 2 ^ 63" "?c < 2 ^ 63" by linarith+
    then have "sint (Positive S) = int ?a" "sint (Negative S) = int ?b" "sint (Neutral S) = int ?c"
      by (simp_all add: P N U len_def sint_of_nat_small)
    with abc show ?thesis by linarith
  qed
  have empty: "Average S = 0" if "reviews = []"
    using that by (simp add: S_def summary_average len_def)
  have avg: "Average S = real_of_int (ratingSum reviews) / real (length reviews)"
    if "reviews \<noteq> []" "length reviews < 2 ^ 63" "fitsInt (ratingSum reviews)"
  proof -
    from that have l: "sint (len reviews) = int (length reviews)"
      by (simp add: len_def sint_of_nat_small)
    from that have pos: "0 < sint (len reviews)" by (simp add: l)
    have "ratingTotal reviews = word_of_int (ratingSum reviews)"
      by (simp add: ratingTotal_def ratingTotal_sum_list sum_list_Rating_of_int ratingSum_def)
    then have "sint (ratingTotal reviews) = ratingSum reviews"
      using that(3) by (simp only: sint_of_int_fits)
    then show ?thesis
      using pos by (simp add: S_def summary_average float64_of_int_def l)
  qed
  from total P N U signed empty avg show ?thesis by blast
qed

theorem calculateSentimentSummary_counts_and_average_witness:
  "Positive (calculateSentimentSummary
      [\<lparr>ReviewID = ''1'', Sentiment = ''positive'', Score = 1\<rparr>,
       \<lparr>ReviewID = ''2'', Sentiment = ''negative'', Score = 1\<rparr>,
       \<lparr>ReviewID = ''3'', Sentiment = ''mixed'', Score = 1\<rparr>]
      [Review_zero\<lparr>Rating := 5\<rparr>, Review_zero\<lparr>Rating := 1\<rparr>]) = 1
   \<and> sint (Positive (calculateSentimentSummary
      [\<lparr>ReviewID = ''1'', Sentiment = ''positive'', Score = 1\<rparr>,
       \<lparr>ReviewID = ''2'', Sentiment = ''negative'', Score = 1\<rparr>,
       \<lparr>ReviewID = ''3'', Sentiment = ''mixed'', Score = 1\<rparr>]
      [Review_zero\<lparr>Rating := 5\<rparr>, Review_zero\<lparr>Rating := 1\<rparr>]))
     + sint (Negative (calculateSentimentSummary
      [\<lparr>ReviewID = ''1'', Sentiment = ''positive'', Score = 1\<rparr>,
       \<lparr>ReviewID = ''2'', Sentiment = ''negative'', Score = 1\<rparr>,
       \<lparr>ReviewID = ''3'', Sentiment = ''mixed'', Score = 1\<rparr>]
      [Review_zero\<lparr>Rating := 5\<rparr>, Review_zero\<lparr>Rating := 1\<rparr>]))
     + sint (Neutral (calculateSentimentSummary
      [\<lparr>ReviewID = ''1'', Sentiment = ''positive'', Score = 1\<rparr>,
       \<lparr>ReviewID = ''2'', Sentiment = ''negative'', Score = 1\<rparr>,
       \<lparr>ReviewID = ''3'', Sentiment = ''mixed'', Score = 1\<rparr>]
      [Review_zero\<lparr>Rating := 5\<rparr>, Review_zero\<lparr>Rating := 1\<rparr>])) = 3
   \<and> Average (calculateSentimentSummary
      [\<lparr>ReviewID = ''1'', Sentiment = ''positive'', Score = 1\<rparr>,
       \<lparr>ReviewID = ''2'', Sentiment = ''negative'', Score = 1\<rparr>,
       \<lparr>ReviewID = ''3'', Sentiment = ''mixed'', Score = 1\<rparr>]
      [Review_zero\<lparr>Rating := 5\<rparr>, Review_zero\<lparr>Rating := 1\<rparr>]) = 3
   \<and> Average (calculateSentimentSummary [] []) = 0"
  using
    calculateSentimentSummary_counts_and_average
      [of "[\<lparr>ReviewID = ''1'', Sentiment = ''positive'', Score = 1\<rparr>,
            \<lparr>ReviewID = ''2'', Sentiment = ''negative'', Score = 1\<rparr>,
            \<lparr>ReviewID = ''3'', Sentiment = ''mixed'', Score = 1\<rparr>]"
          "[Review_zero\<lparr>Rating := 5\<rparr>, Review_zero\<lparr>Rating := 1\<rparr>]"]
    calculateSentimentSummary_counts_and_average [of "[]" "[]"]
  by (simp add: len_def isPositive_def isNegative_def isOther_def Review_zero_def fitsInt_def ratingSum_def)

text \<open>
  C9, as stated: for non-negative counts the shift lies between -100 and 100. It fails
  where a side's total wraps around: three counts of \<open>2 ^ 62\<close> add up to \<open>- (2 ^ 62)\<close>,
  the positive rate of that side is -100, and the shift against a wholly positive side
  is 200. Each value of this run is a power of two or a small integer, so \<open>float64\<close>
  computes it exactly.
\<close>

theorem calculateSentimentShift_range_counterexample:
  "0 \<le> sint (2 ^ 62 :: go_int) \<and> 0 \<le> sint (1 :: go_int) \<and> 0 \<le> sint (0 :: go_int)
   \<and> calculateSentimentShift
        \<lparr>Positive = 2 ^ 62, Negative = 2 ^ 62, Neutral = 2 ^ 62, Average = 0\<rparr>
        \<lparr>Positive = 1, Negative = 0, Neutral = 0, Average = 0\<rparr> = 200"
  by (simp add: calculateSentimentShift_def float64_of_int_def)

text \<open>
  C9, amended: for non-negative counts whose total on each side is below \<open>2 ^ 63\<close>, so
  that no addition wraps, the shift lies between -100 and 100.
\<close>

theorem calculateSentimentShift_range:
  assumes "0 \<le> sint (Positive pre)" "0 \<le> sint (Negative pre)" "0 \<le> sint (Neutral pre)"
    and "0 \<le> sint (Positive post)" "0 \<le> sint (Negative post)" "0 \<le> sint (Neutral post)"
    and "sint (Positive pre) + sint (Negative pre) + sint (Neutral pre) < 2 ^ 63"
    and "sint (Positive post) + sint (Negative post) + sint (Neutral post) < 2 ^ 63"
  shows "- 100 \<le> calculateSentimentShift pre post \<and> calculateSentimentShift pre post \<le> 100"
proof -
  have "0 \<le> positiveRate pre \<and> positiveRate pre \<le> 100"
    using assms by (intro positiveRate_bounds) auto
  moreover have "0 \<le> positiveRate post \<and> positiveRate post \<le> 100"
    using assms by (intro positiveRate_bounds) auto
  ultimately show ?thesis
    by (simp add: shift_by_rates)
qed

theorem calculateSentimentShift_range_witness:
  "- 100 \<le> calculateSentimentShift
       \<lparr>Positive = 3, Negative = 0, Neutral = 0, Average = 0\<rparr>
       \<lparr>Positive = 0, Negative = 2, Neutral = 1, Average = 0\<rparr>
   \<and> calculateSentimentShift
       \<lparr>Positive = 3, Negative = 0, Neutral = 0, Average = 0\<rparr>
       \<lparr>Positive = 0, Negative = 2, Neutral = 1, Average = 0\<rparr> \<le> 100
   \<and> calculateSentimentShift
       \<lparr>Positive = 3, Negative = 0, Neutral = 0, Average = 0\<rparr>
       \<lparr>Positive = 0, Negative = 2, Neutral = 1, Average = 0\<rparr> = - 100"
proof -
  have "- 100 \<le> calculateSentimentShift
       \<lparr>Positive = 3, Negative = 0, Neutral = 0, Average = 0\<rparr>
       \<lparr>Positive = 0, Negative = 2, Neutral = 1, Average = 0\<rparr>
   \<and> calculateSentimentShift
       \<lparr>Positive = 3, Negative = 0, Neutral = 0, Average = 0\<rparr>
       \<lparr>Positive = 0, Negative = 2, Neutral = 1, Average = 0\<rparr> \<le> 100"
    by (rule calculateSentimentShift_range) simp_all
  moreover have "calculateSentimentShift
       \<lparr>Positive = 3, Negative = 0, Neutral = 0, Average = 0\<rparr>
       \<lparr>Positive = 0, Negative = 2, Neutral = 1, Average = 0\<rparr> = - 100"
    by (simp add: calculateSentimentShift_def float64_of_int_def)
  ultimately show ?thesis by simp
qed


section \<open>Properties of the response sanitizer\<close>

lemma skipLeading_blanks: "list_all isBlank ws \<Longrightarrow> skipLeading (ws @ xs) = skipLeading xs"
  by (induction ws) simp_all

lemma skipLeading_id: "xs = [] \<or> \<not> isBlank (hd xs) \<Longrightarrow> skipLeading xs = xs"
  by (cases xs) simp_all

lemma skipTrailing_id: "xs = [] \<or> \<not> isBlank (last xs) \<Longrightarrow> skipTrailing xs = xs"
  by (subst skipTrailing.simps) auto

lemma skipTrailing_blanks: "list_all isBlank ws \<Longrightarrow> skipTrailing (xs @ ws) = skipTrailing xs"
proof (induction ws rule: rev_induct)
  case Nil
  then show ?case by simp
next
  case (snoc c ws)
  then have "isBlank c" "list_all isBlank ws" by simp_all
  have "skipTrailing (xs @ ws @ [c]) = skipTrailing (butlast (xs @ ws @ [c]))"
    using \<open>isBlank c\<close> by (subst skipTrailing.simps) simp
  also have "butlast (xs @ ws @ [c]) = xs @ ws"
    by (simp add: butlast_append)
  finally show ?case
    using snoc.IH [OF \<open>list_all isBlank ws\<close>] by simp
qed

lemma removePrefix_hit:
  "list_all isBlank ws \<Longrightarrow> p \<noteq> [] \<Longrightarrow> \<not> isBlank (hd p) \<Longrightarrow> removePrefix (ws @ p @ rest) p = rest"
proof -
  assume a: "list_all isBlank ws" "p \<noteq> []" "\<not> isBlank (hd p)"
  have "skipLeading (ws @ p @ rest) = p @ rest"
    using a by (simp add: skipLeading_blanks skipLeading_id)
  then show ?thesis
    by (simp add: removePrefix_def Let_def)
qed

lemma removePrefix_miss:
  "xs = [] \<or> \<not> isBlank (hd xs) \<Longrightarrow> take (length p) xs \<noteq> p \<Longrightarrow> removePrefix xs p = xs"
  by (simp add: removePrefix_def Let_def skipLeading_id)

lemma removeSuffix_hit:
  "list_all isBlank ws \<Longrightarrow> p \<noteq> [] \<Longrightarrow> \<not> isBlank (last p) \<Longrightarrow> removeSuffix (xs @ p @ ws) p = xs"
proof -
  assume a: "list_all isBlank ws" "p \<noteq> []" "\<not> isBlank (last p)"
  have "skipTrailing ((xs @ p) @ ws) = skipTrailing (xs @ p)"
    using a(1) by (rule skipTrailing_blanks)
  also have "\<dots> = xs @ p"
    using a by (intro skipTrailing_id) simp
  finally show ?thesis
    by (simp add: removeSuffix_def Let_def)
qed

lemma take_append_foreign:
  assumes eq: "take (length p) (s @ t) = p" and t: "t \<noteq> []" "hd t \<notin> set p"
  shows "take (length p) s = p"
proof (cases "length p \<le> length s")
  case True
  with eq show ?thesis by simp
next
  case False
  then have lt: "length s < length p" by simp
  then have "p ! length s \<in> set p" by simp
  moreover have "p ! length s = hd t"
  proof -
    have "p ! length s = take (length p) (s @ t) ! length s"
      by (simp only: eq)
    also have "\<dots> = (s @ t) ! length s"
      using lt by (rule nth_take)
    also have "\<dots> = hd t"
      using t(1) by (simp add: nth_append hd_conv_nth)
    finally show ?thesis .
  qed
  ultimately show ?thesis using t(2) by simp
qed

lemma removePrefix_blanks:
  "list_all isBlank ws \<Longrightarrow> removePrefix (ws @ xs) p = removePrefix xs p"
  by (simp add: removePrefix_def skipLeading_blanks)

lemma take_append_same:
  "(take (length (a @ b)) (a @ rest) = a @ b) = (take (length b) rest = b)"
  by simp

lemma clean_bare:
  assumes ws: "list_all isBlank ws1" "list_all isBlank ws2"
    and s: "take 4 s \<noteq> ''json''"
  shows \<open>cleanJSONResponse (fenced ws1 ''```'' s ws2) = s\<close>
proof -
  let ?f = \<open>''```''\<close>
  have l4: "length ''json'' = 4" by simp
  have j: \<open>''```json'' = ?f @ ''json''\<close> by simp
  have miss: "take (length (?f @ ''json'')) (?f @ (s @ ?f @ ws2)) \<noteq> ?f @ ''json''"
  proof
    assume "take (length (?f @ ''json'')) (?f @ (s @ ?f @ ws2)) = ?f @ ''json''"
    then have "take (length ''json'') (s @ (?f @ ws2)) = ''json''"
      by (simp only: take_append_same)
    then have "take (length ''json'') s = ''json''"
      by (rule take_append_foreign) simp_all
    with s show False by (simp only: l4)
  qed
  have "removePrefix (ws1 @ (?f @ (s @ ?f @ ws2))) (?f @ ''json'') = removePrefix (?f @ (s @ ?f @ ws2)) (?f @ ''json'')"
    using ws(1) by (rule removePrefix_blanks)
  also have "\<dots> = ?f @ (s @ ?f @ ws2)"
    using _ miss by (rule removePrefix_miss) (simp add: isBlank_def)
  finally have 1: \<open>removePrefix (ws1 @ ?f @ s @ ?f @ ws2) ''```json'' = ?f @ s @ ?f @ ws2\<close>
    by (simp only: j append_assoc)
  have 2: "removePrefix (?f @ s @ ?f @ ws2) ?f = s @ ?f @ ws2"
    using removePrefix_hit [of "[]" ?f "s @ ?f @ ws2"] by (simp add: isBlank_def)
  have 3: "removeSuffix (s @ ?f @ ws2) ?f = s"
    using ws(2) by (intro removeSuffix_hit) (simp_all add: isBlank_def)
  show ?thesis
    unfolding cleanJSONResponse_def fenced_def 1 2 3 ..
qed

lemma clean_json:
  assumes ws: "list_all isBlank ws1" "list_all isBlank ws2"
    and s: "s = [] \<or> \<not> isBlank (hd s)" \<open>take 3 s \<noteq> ''```''\<close>
  shows \<open>cleanJSONResponse (fenced ws1 ''```json'' s ws2) = s\<close>
proof -
  let ?f = \<open>''```''\<close>
  let ?j = \<open>''```json''\<close>
  have l3: "length ?f = 3" by simp
  have 1: "removePrefix (ws1 @ ?j @ s @ ?f @ ws2) ?j = s @ ?f @ ws2"
    using ws(1) by (intro removePrefix_hit) (simp_all add: isBlank_def)
  show ?thesis
  proof (cases "take (length ?f) (s @ ?f @ ws2) = ?f")
    case False
    have "s @ ?f @ ws2 = [] \<or> \<not> isBlank (hd (s @ ?f @ ws2))"
      using s(1) by (cases s) (simp_all add: isBlank_def)
    then have 2: "removePrefix (s @ ?f @ ws2) ?f = s @ ?f @ ws2"
      using False by (rule removePrefix_miss)
    have 3: "removeSuffix (s @ ?f @ ws2) ?f = s"
      using ws(2) by (intro removeSuffix_hit) (simp_all add: isBlank_def)
    show ?thesis
      unfolding cleanJSONResponse_def fenced_def 1 2 3 ..
  next
    case True
    text \<open>The content is shorter than the marker and made of backquotes only.\<close>
    have short: "length s < 3"
    proof (rule ccontr)
      assume "\<not> length s < 3"
      then have "take 3 (s @ ?f @ ws2) = take 3 s" by simp
      moreover have "take 3 (s @ ?f @ ws2) = ?f"
        using True by (simp only: l3)
      ultimately show False using s(2) by simp
    qed
    from short consider "s = []" | a where "s = [a]" | a b where "s = [a, b]"
      by (cases s; cases "tl s"; cases "tl (tl s)") auto
    then have "s @ ?f = ?f @ s \<and> (s = [] \<or> \<not> isBlank (last s))"
    proof cases
      case 1
      then show ?thesis by simp
    next
      case 2
      with True show ?thesis by (simp add: isBlank_def)
    next
      case 3
      with True show ?thesis by (simp add: isBlank_def)
    qed
    then have comm: "s @ ?f = ?f @ s" and nb: "s = [] \<or> \<not> isBlank (last s)"
      by simp_all
    have "s @ ?f @ ws2 = (s @ ?f) @ ws2" by simp
    also have "\<dots> = [] @ ?f @ (s @ ws2)"
      by (simp only: comm) simp
    finally have "removePrefix (s @ ?f @ ws2) ?f = removePrefix ([] @ ?f @ (s @ ws2)) ?f"
      by (rule arg_cong)
    also have "\<dots> = s @ ws2"
      by (rule removePrefix_hit) (simp_all add: isBlank_def)
    finally have 2: "removePrefix (s @ ?f @ ws2) ?f = s @ ws2" .
    have "skipTrailing (s @ ws2) = s"
      using ws(2) nb by (simp add: skipTrailing_blanks skipTrailing_id)
    then have 3: "removeSuffix (s @ ws2) ?f = s"
      using short by (simp add: removeSuffix_def Let_def)
    show ?thesis
      unfolding cleanJSONResponse_def fenced_def 1 2 3 ..
  qed
qed


text \<open>
  C3, as stated: sanitizing a fenced response gives back the content byte for byte. It
  fails for a content that begins with a blank: the second \<open>removePrefix\<close> trims it.
  The same input read as the content \<open>json [1]\<close> behind the bare marker loses the word
  \<open>json\<close> as well.
\<close>

theorem cleanJSONResponse_roundtrip_counterexample:
  \<open>cleanJSONResponse (fenced [] ''```json'' '' [1]'' []) = ''[1]''
   \<and> cleanJSONResponse (fenced [] ''```json'' '' [1]'' []) \<noteq> '' [1]''
   \<and> fenced [] ''```json'' '' [1]'' [] = fenced [] ''```'' ''json [1]'' []
   \<and> cleanJSONResponse (fenced [] ''```'' ''json [1]'' []) \<noteq> ''json [1]''\<close>
  by (simp add: cleanJSONResponse_def fenced_def removePrefix_def removeSuffix_def
      skipTrailing.simps isBlank_def)

text \<open>
  C3, amended: around the markers any run of spaces, newlines and tabs is tolerated.
  Behind the marker with the language tag, the sanitizer gives back every content that
  begins neither with such a blank nor with three backquotes; behind the bare marker,
  every content that does not begin with \<open>json\<close>.
\<close>

theorem cleanJSONResponse_roundtrip:
  assumes "list_all isBlank ws1" "list_all isBlank ws2"
  shows \<open>((s = [] \<or> \<not> isBlank (hd s)) \<and> take 3 s \<noteq> ''```''
            \<longrightarrow> cleanJSONResponse (fenced ws1 ''```json'' s ws2) = s)
       \<and> (take 4 s \<noteq> ''json'' \<longrightarrow> cleanJSONResponse (fenced ws1 ''```'' s ws2) = s)\<close>
  using assms clean_json [of ws1 ws2 s] clean_bare [of ws1 ws2 s] by blast

theorem cleanJSONResponse_roundtrip_witness:
  \<open>cleanJSONResponse (fenced [CHR '' '', CHR 0x0A] ''```json'' ''[{"score": 0.95}]'' [CHR 0x0A, CHR 0x09])
     = ''[{"score": 0.95}]''
   \<and> cleanJSONResponse (fenced [CHR '' '', CHR 0x0A] ''```'' '' [1] '' [CHR 0x0A, CHR 0x09]) = '' [1] ''\<close>
  using
    cleanJSONResponse_roundtrip [of "[CHR '' '', CHR 0x0A]" "[CHR 0x0A, CHR 0x09]" \<open>''[{"score": 0.95}]''\<close>]
    cleanJSONResponse_roundtrip [of "[CHR '' '', CHR 0x0A]" "[CHR 0x0A, CHR 0x09]" "'' [1] ''"]
  by (simp add: isBlank_def)



section \<open>Properties of the orchestrator\<close>

text \<open>
  C4. Whichever of the four gateway stages fails, \<open>Analyze\<close> returns \<open>nil\<close> for the
  result and an error that wraps the error of the stage, as it was returned, under the
  name of the stage; \<open>errors.Unwrap\<close> gives the error of the stage back, with all it
  carries, and \<open>errors.Is\<close> still finds it. No run returns a result together with an
  error. The client is any implementation of the interface.
\<close>

theorem Analyze_stage_failure:
  fixes llmClient :: "'w LLMAnalyzer"
    and preReviews postReviews :: "Review list"
    and preSentiments postSentiments :: "SentimentResult list"
    and themes :: "ThemeResult list"
  defines "preCollection \<equiv> \<lparr>Reviews = preReviews, Type = ''pre_launch'', Count = len preReviews\<rparr>"
    and "postCollection \<equiv> \<lparr>Reviews = postReviews, Type = ''post_launch'', Count = len postReviews\<rparr>"
    and "comparison \<equiv>
      \<lparr>PreLaunchSentiment = calculateSentimentSummary preSentiments preReviews,
       PostLaunchSentiment = calculateSentimentSummary postSentiments postReviews,
       SentimentShift = calculateSentimentShift (calculateSentimentSummary preSentiments preReviews)
                          (calculateSentimentSummary postSentiments postReviews),
       Themes = themes\<rparr>"
  shows
    "(AnalyzeSentiments llmClient preReviews w = (Inl err, w_pre) \<longrightarrow>
        Analyze llmClient preReviews postReviews now w =
          ((None, Some (Errorf ''failed to analyze pre-launch sentiments: %w'' [] (Some err))), w_pre))
     \<and> (AnalyzeSentiments llmClient preReviews w = (Inr preSentiments, w_pre)
        \<and> AnalyzeSentiments llmClient postReviews w_pre = (Inl err, w_post) \<longrightarrow>
        Analyze llmClient preReviews postReviews now w =
          ((None, Some (Errorf ''failed to analyze post-launch sentiments: %w'' [] (Some err))), w_post))
     \<and> (AnalyzeSentiments llmClient preReviews w = (Inr preSentiments, w_pre)
        \<and> AnalyzeSentiments llmClient postReviews w_pre = (Inr postSentiments, w_post)
        \<and> ExtractThemes llmClient preReviews postReviews w_post = (Inl err, w_themes) \<longrightarrow>
        Analyze llmClient preReviews postReviews now w =
          ((None, Some (Errorf ''failed to extract themes: %w'' [] (Some err))), w_themes))
     \<and> (AnalyzeSentiments llmClient preReviews w = (Inr preSentiments, w_pre)
        \<and> AnalyzeSentiments llmClient postReviews w_pre = (Inr postSentiments, w_post)
        \<and> ExtractThemes llmClient preReviews postReviews w_post = (Inr themes, w_themes)
        \<and> GenerateImpactSummary llmClient preCollection postCollection comparison w_themes = (Inl err, w_impact) \<longrightarrow>
        Analyze llmClient preReviews postReviews now w =
          ((None, Some (Errorf ''failed to generate impact summary: %w'' [] (Some err))), w_impact))
     \<and> (snd (fst (Analyze llmClient preReviews postReviews now w)) \<noteq> None \<longrightarrow>
        fst (fst (Analyze llmClient preReviews postReviews now w)) = None)
     \<and> Unwrap (Errorf format [] (Some err)) = Some err
     \<and> errors_Is (Errorf format [] (Some err)) err"
proof -
  have is_self: "errors_Is e e" for e
  proof (cases e)
    case (Errorf format args wrapped)
    then show ?thesis by (cases wrapped) simp_all
  qed simp_all
  have no_partial: "snd (fst (Analyze llmClient preReviews postReviews now w)) \<noteq> None \<longrightarrow>
        fst (fst (Analyze llmClient preReviews postReviews now w)) = None"
    by (simp add: Analyze_def Let_def split: prod.splits sum.splits)
  show ?thesis
    unfolding preCollection_def postCollection_def comparison_def
    using no_partial is_self [of err]
    by (simp add: Analyze_def Let_def)
qed


text \<open>The test double failing at its first, second, third and fourth call.\<close>

theorem Analyze_stage_failure_witness:
  "fst (Analyze (failingAt 0) [] [] ''2026-01-01T00:00:00Z'' 0) =
     (None, Some (Errorf ''failed to analyze pre-launch sentiments: %w'' [] (Some stubError)))
   \<and> fst (Analyze (failingAt 1) [] [] ''2026-01-01T00:00:00Z'' 0) =
     (None, Some (Errorf ''failed to analyze post-launch sentiments: %w'' [] (Some stubError)))
   \<and> fst (Analyze (failingAt 2) [] [] ''2026-01-01T00:00:00Z'' 0) =
     (None, Some (Errorf ''failed to extract themes: %w'' [] (Some stubError)))
   \<and> fst (Analyze (failingAt 3) [] [] ''2026-01-01T00:00:00Z'' 0) =
     (None, Some (Errorf ''failed to generate impact summary: %w'' [] (Some stubError)))
   \<and> Unwrap (Errorf ''failed to extract themes: %w'' [] (Some stubError)) = Some stubError"
  using
    Analyze_stage_failure [where llmClient = "failingAt 0" and preReviews = "[]" and postReviews = "[]"
      and w = 0 and err = stubError and w_pre = 1 and now = "''2026-01-01T00:00:00Z''"
      and format = "''failed to extract themes: %w''"]
    Analyze_stage_failure [where llmClient = "failingAt 1" and preReviews = "[]" and postReviews = "[]"
      and w = 0 and err = stubError and w_pre = 1 and w_post = 2 and preSentiments = "[]"
      and now = "''2026-01-01T00:00:00Z''"]
    Analyze_stage_failure [where llmClient = "failingAt 2" and preReviews = "[]" and postReviews = "[]"
      and w = 0 and err = stubError and w_pre = 1 and w_post = 2 and w_themes = 3 and preSentiments = "[]"
      and postSentiments = "[]" and now = "''2026-01-01T00:00:00Z''"]
    Analyze_stage_failure [where llmClient = "failingAt 3" and preReviews = "[]" and postReviews = "[]"
      and w = 0 and err = stubError and w_pre = 1 and w_post = 2 and w_themes = 3 and w_impact = 4 and preSentiments = "[]"
      and postSentiments = "[]" and themes = "[]" and now = "''2026-01-01T00:00:00Z''"]
  by (simp add: failingAt_def)



section \<open>Properties of the tabular parser\<close>

lemma csv_Read_expected:
  assumes "pending r = Inr record # rest" "FieldsPerRecord r = int (length record)"
  shows "csv_Read r = (Inr record, r\<lparr>pending := rest\<rparr>)"
proof (cases "length record = 0")
  case True
  with assms show ?thesis by (simp add: csv_Read_def)
next
  case False
  with assms show ?thesis by (simp add: csv_Read_def)
qed

lemma csv_Read_mismatch:
  assumes "pending r = Inr record # rest" "0 < FieldsPerRecord r" "int (length record) \<noteq> FieldsPerRecord r"
  shows "csv_Read r = (Inl ErrFieldCount, r\<lparr>pending := rest\<rparr>)"
  using assms by (simp add: csv_Read_def)

lemma readRows_rows:
  assumes "pending r = map Inr rows @ tail" "FieldsPerRecord r = int n"
    and "list_all (\<lambda>row. length row = n) rows"
  shows "readRows Atoi colIndex r acc lineNum =
         readRows Atoi colIndex (r\<lparr>pending := tail\<rparr>)
           (acc @ map (reviewOfRecord Atoi colIndex) rows) (lineNum + int (length rows))"
  using assms
proof (induction rows arbitrary: r acc lineNum)
  case Nil
  then have "r\<lparr>pending := tail\<rparr> = r" by simp
  then show ?case by simp
next
  case (Cons row rows)
  from Cons.prems have read: "csv_Read r = (Inr row, r\<lparr>pending := map Inr rows @ tail\<rparr>)"
    by (intro csv_Read_expected) simp_all
  have "readRows Atoi colIndex r acc lineNum =
        readRows Atoi colIndex (r\<lparr>pending := map Inr rows @ tail\<rparr>)
          (acc @ [reviewOfRecord Atoi colIndex row]) (lineNum + 1)"
    by (subst readRows.simps) (simp add: read)
  also have "\<dots> = readRows Atoi colIndex (r\<lparr>pending := map Inr rows @ tail, pending := tail\<rparr>)
          ((acc @ [reviewOfRecord Atoi colIndex row]) @ map (reviewOfRecord Atoi colIndex) rows)
          (lineNum + 1 + int (length rows))"
    using Cons.prems by (intro Cons.IH) simp_all
  finally show ?case by (simp add: add.assoc)
qed

lemma readRows_end: "pending r = [] \<Longrightarrow> readRows Atoi colIndex r acc lineNum = Inr acc"
  by (subst readRows.simps) (simp add: csv_Read_def)

lemma readRows_mismatch:
  assumes "pending r = Inr bad # rest" "0 < FieldsPerRecord r" "int (length bad) \<noteq> FieldsPerRecord r"
  shows "readRows Atoi colIndex r acc lineNum =
         Inl (Errorf ''error reading line %d: %w'' [ArgInt (lineNum + 1)] (Some ErrFieldCount))"
  by (subst readRows.simps) (simp add: csv_Read_mismatch [OF assms])

lemma readRows_tokenise_error:
  assumes "pending r = Inl err # rest" "err \<noteq> EOF"
  shows "readRows Atoi colIndex r acc lineNum =
         Inl (Errorf ''error reading line %d: %w'' [ArgInt (lineNum + 1)] (Some err))"
  using assms by (subst readRows.simps) (simp add: csv_Read_def)

lemma ParseCSV_header:
  "ParseCSV Atoi (Inr header # rest) =
     readRows Atoi (buildColIndex header) \<lparr>pending = rest, FieldsPerRecord = int (length header)\<rparr> [] 1"
  by (simp add: ParseCSV_def csv_NewReader_def csv_Read_def)

lemma buildColIndex_snoc:
  "buildColIndex (header @ [col]) = (buildColIndex header)(col \<mapsto> length header)"
  by (simp add: buildColIndex_def enumerate_append_eq)

lemma buildColIndex_absent: "name \<notin> set header \<Longrightarrow> buildColIndex header name = None"
proof (induction header rule: rev_induct)
  case Nil
  then show ?case by (simp add: buildColIndex_def)
next
  case (snoc col header)
  then show ?case by (simp add: buildColIndex_snoc)
qed

lemma buildColIndex_lastAt: "lastAt header name i \<Longrightarrow> buildColIndex header name = Some i"
proof (induction header rule: rev_induct)
  case Nil
  then show ?case by (simp add: lastAt_def)
next
  case (snoc col header)
  show ?case
  proof (cases "col = name")
    case True
    have "i = length header"
    proof (rule ccontr)
      assume "i \<noteq> length header"
      with snoc.prems have "i < length header" by (simp add: lastAt_def)
      then have "name \<in> set (drop (Suc i) (header @ [col]))" using True by simp
      with snoc.prems show False by (simp add: lastAt_def)
    qed
    with True show ?thesis by (simp add: buildColIndex_snoc)
  next
    case False
    with snoc.prems have "i < length header"
      by (cases "i = length header") (auto simp: lastAt_def)
    with snoc.prems False have "lastAt header name i"
      by (simp add: lastAt_def nth_append)
    with snoc.IH False show ?thesis by (simp add: buildColIndex_snoc)
  qed
qed

lemma field_absent: "name \<notin> set header \<Longrightarrow> field (buildColIndex header) name record = None"
  by (simp add: field_def buildColIndex_absent)

lemma field_lastAt:
  "lastAt header name i \<Longrightarrow> i < length record \<Longrightarrow> field (buildColIndex header) name record = Some (record ! i)"
  by (simp add: field_def buildColIndex_lastAt)

lemma reviewOfRecord_fields:
  "ID (reviewOfRecord Atoi colIndex record) = (case field colIndex ''id'' record of Some v \<Rightarrow> v | None \<Rightarrow> [])"
  "Date (reviewOfRecord Atoi colIndex record) = (case field colIndex ''date'' record of Some v \<Rightarrow> v | None \<Rightarrow> [])"
  "UserID (reviewOfRecord Atoi colIndex record) = (case field colIndex ''user_id'' record of Some v \<Rightarrow> v | None \<Rightarrow> [])"
  "ReviewText (reviewOfRecord Atoi colIndex record) =
     (case field colIndex ''review_text'' record of Some v \<Rightarrow> v | None \<Rightarrow> [])"
  "Source (reviewOfRecord Atoi colIndex record) = (case field colIndex ''source'' record of Some v \<Rightarrow> v | None \<Rightarrow> [])"
  "Rating (reviewOfRecord Atoi colIndex record) =
     (case field colIndex ''rating'' record of
        Some v \<Rightarrow> (case Atoi v of Inr rating \<Rightarrow> rating | Inl err \<Rightarrow> 0)
      | None \<Rightarrow> 0)"
  by (simp_all add: reviewOfRecord_def Review_zero_def Let_def split: option.splits sum.splits)

lemma decimalAtoi_samples:
  "decimalAtoi ''five'' = Inl ErrSyntax" "decimalAtoi ''5'' = Inr 5" "decimalAtoi ''-1'' = Inr (- 1)"
  "decimalAtoi ''x'' = Inl ErrSyntax"
  by (simp_all add: decimalAtoi_def digitValue_def)


lemma buildColIndex_id_rating: "buildColIndex [''id'', ''rating''] = [''id'' \<mapsto> 0, ''rating'' \<mapsto> 1]"
  by (simp add: buildColIndex_def)

text \<open>
  C5. For a header and \<open>N\<close> data rows that the reader delivers as records, each with
  as many fields as the header, \<open>ParseCSV\<close> succeeds with \<open>N\<close> reviews: the review at
  each position is the one built from the row at that position.
\<close>

theorem ParseCSV_rows_in_order:
  assumes "list_all (\<lambda>row. length row = length header) rows"
  shows "ParseCSV Atoi (Inr header # map Inr rows) = Inr (map (reviewOfRecord Atoi (buildColIndex header)) rows)
    \<and> (\<exists>reviews. ParseCSV Atoi (Inr header # map Inr rows) = Inr reviews \<and> length reviews = length rows)"
proof -
  let ?r = "\<lparr>pending = map Inr rows, FieldsPerRecord = int (length header)\<rparr>"
  have "readRows Atoi (buildColIndex header) ?r [] 1 =
        readRows Atoi (buildColIndex header) (?r\<lparr>pending := []\<rparr>)
          ([] @ map (reviewOfRecord Atoi (buildColIndex header)) rows) (1 + int (length rows))"
    using assms by (intro readRows_rows) simp_all
  also have "\<dots> = Inr (map (reviewOfRecord Atoi (buildColIndex header)) rows)"
    by (simp add: readRows_end)
  finally show ?thesis by (simp add: ParseCSV_header)
qed

theorem ParseCSV_rows_in_order_witness:
  "ParseCSV decimalAtoi
     [Inr [''id'', ''rating''], Inr [''a'', ''5''], Inr [''b'', ''x''], Inr [''c'', ''-1'']] =
   Inr [Review_zero\<lparr>ID := ''a'', Rating := 5\<rparr>, Review_zero\<lparr>ID := ''b''\<rparr>, Review_zero\<lparr>ID := ''c'', Rating := - 1\<rparr>]"
  using ParseCSV_rows_in_order [of "[''id'', ''rating'']" "[[''a'', ''5''], [''b'', ''x''], [''c'', ''-1'']]" decimalAtoi]
  by (simp add: reviewOfRecord_def buildColIndex_id_rating field_def decimalAtoi_samples)


text \<open>
  The failures of the parser in terms of records. An input of a header alone gives the
  empty sequence and no error. The empty input fails: reading the header returns
  \<open>io.EOF\<close>, which is wrapped. A data row whose number of fields is not the header's,
  or one the tokeniser rejects, makes the whole parse fail, and the number the error
  carries is the ordinal of that record, the header being record 1.
\<close>

lemma ParseCSV_record_errors:
  "ParseCSV Atoi [Inr header] = Inr []
   \<and> ParseCSV Atoi [] = Inl (Errorf ''failed to read CSV header: %w'' [] (Some EOF))
   \<and> (header \<noteq> [] \<and> list_all (\<lambda>row. length row = length header) good \<and> length bad \<noteq> length header \<longrightarrow>
        ParseCSV Atoi (Inr header # map Inr good @ Inr bad # rest) =
          Inl (Errorf ''error reading line %d: %w'' [ArgInt (int (length good) + 2)] (Some ErrFieldCount)))
   \<and> (list_all (\<lambda>row. length row = length header) good \<and> err \<noteq> EOF \<longrightarrow>
        ParseCSV Atoi (Inr header # map Inr good @ Inl err # rest) =
          Inl (Errorf ''error reading line %d: %w'' [ArgInt (int (length good) + 2)] (Some err)))"
proof -
  have only_header: "ParseCSV Atoi [Inr header] = Inr []"
    by (simp add: ParseCSV_header readRows_end)
  have no_header: "ParseCSV Atoi [] = Inl (Errorf ''failed to read CSV header: %w'' [] (Some EOF))"
    by (simp add: ParseCSV_def csv_NewReader_def csv_Read_def)
  have malformed: "ParseCSV Atoi (Inr header # map Inr good @ Inr bad # rest) =
      Inl (Errorf ''error reading line %d: %w'' [ArgInt (int (length good) + 2)] (Some ErrFieldCount))"
    if h: "header \<noteq> []" and g: "list_all (\<lambda>row. length row = length header) good"
      and b: "length bad \<noteq> length header"
  proof -
    let ?r = "\<lparr>pending = map Inr good @ Inr bad # rest, FieldsPerRecord = int (length header)\<rparr>"
    have "readRows Atoi (buildColIndex header) ?r [] 1 =
          readRows Atoi (buildColIndex header) (?r\<lparr>pending := Inr bad # rest\<rparr>)
            ([] @ map (reviewOfRecord Atoi (buildColIndex header)) good) (1 + int (length good))"
      using g by (intro readRows_rows) simp_all
    also have "\<dots> = Inl (Errorf ''error reading line %d: %w'' [ArgInt (1 + int (length good) + 1)] (Some ErrFieldCount))"
      using h b by (intro readRows_mismatch) simp_all
    finally show ?thesis by (simp add: ParseCSV_header)
  qed
  have unreadable: "ParseCSV Atoi (Inr header # map Inr good @ Inl err # rest) =
      Inl (Errorf ''error reading line %d: %w'' [ArgInt (int (length good) + 2)] (Some err))"
    if g: "list_all (\<lambda>row. length row = length header) good" and e: "err \<noteq> EOF"
  proof -
    let ?r = "\<lparr>pending = map Inr good @ Inl err # rest, FieldsPerRecord = int (length header)\<rparr>"
    have "readRows Atoi (buildColIndex header) ?r [] 1 =
          readRows Atoi (buildColIndex header) (?r\<lparr>pending := Inl err # rest\<rparr>)
            ([] @ map (reviewOfRecord Atoi (buildColIndex header)) good) (1 + int (length good))"
      using g by (intro readRows_rows) simp_all
    also have "\<dots> = Inl (Errorf ''error reading line %d: %w'' [ArgInt (1 + int (length good) + 1)] (Some err))"
      using e by (intro readRows_tokenise_error) simp_all
    finally show ?thesis by (simp add: ParseCSV_header)
  qed
  from only_header no_header malformed unreadable show ?thesis by blast
qed
lemma ParseCSV_record_errors_example:
  "ParseCSV decimalAtoi [Inr [''id'', ''rating'']] = Inr []
   \<and> ParseCSV decimalAtoi [] = Inl (Errorf ''failed to read CSV header: %w'' [] (Some EOF))
   \<and> ParseCSV decimalAtoi [Inr [''id'', ''rating''], Inr [''a'', ''5''], Inr [''b''], Inr [''c'', ''1'']] =
       Inl (Errorf ''error reading line %d: %w'' [ArgInt 3] (Some ErrFieldCount))
   \<and> ParseCSV decimalAtoi
       [Inr [''id'', ''rating''], Inr [''a'', ''5''], Inl (LibError ''bare quote''), Inr [''c'', ''1'']] =
       Inl (Errorf ''error reading line %d: %w'' [ArgInt 3] (Some (LibError ''bare quote'')))"
  using ParseCSV_record_errors [where Atoi = decimalAtoi and header = "[''id'', ''rating'']"
      and good = "[[''a'', ''5'']]" and bad = "[''b'']" and rest = "[Inr [''c'', ''1'']]"
      and err = "LibError ''bare quote''"]
  by simp

text \<open>
  C6. An input of a header alone gives the empty sequence and no error, the empty input
  fails, and a row with the wrong number of fields makes the whole parse fail with an
  error that reports the line of that row, counted from 1. The first two hold. The
  number in \<open>error reading line %d\<close> is meant as that line, but \<open>lineNum\<close> counts
  calls of \<open>Read\<close>, and after a blank line the two differ: in the input whose lines are
  the header, a blank line, the row \<open>a,5\<close> and the row \<open>b\<close>, the offending row is on
  line 4 and the error carries 3, the number it also carries when the blank line is
  absent and the row is on line 3.
\<close>

theorem ParseCSV_line_number_after_blank_line:
  "ParseCSV decimalAtoi (csv_records [RecordLine (Inr [''id'', ''rating''])]) = Inr []
   \<and> ParseCSV decimalAtoi (csv_records []) = Inl (Errorf ''failed to read CSV header: %w'' [] (Some EOF))
   \<and> [RecordLine (Inr [''id'', ''rating'']), BlankLine, RecordLine (Inr [''a'', ''5'']),
       RecordLine (Inr [''b''])] ! 3 = RecordLine (Inr [''b''])
   \<and> ParseCSV decimalAtoi
       (csv_records [RecordLine (Inr [''id'', ''rating'']), BlankLine, RecordLine (Inr [''a'', ''5'']),
                     RecordLine (Inr [''b''])]) =
       Inl (Errorf ''error reading line %d: %w'' [ArgInt 3] (Some ErrFieldCount))
   \<and> ParseCSV decimalAtoi
       (csv_records [RecordLine (Inr [''id'', ''rating'']), RecordLine (Inr [''a'', ''5'']),
                     RecordLine (Inr [''b''])]) =
       Inl (Errorf ''error reading line %d: %w'' [ArgInt 3] (Some ErrFieldCount))"
  using ParseCSV_record_errors [where Atoi = decimalAtoi and header = "[''id'', ''rating'']"
      and good = "[[''a'', ''5'']]" and bad = "[''b'']" and rest = "[]" and err = ErrSyntax]
  by simp

text \<open>
  C7. For any row and header: a recognized column that the header lacks leaves its
  field at the zero value; the value under a recognized column is copied as it is, the
  last column of a name being the one read; a rating that \<open>Atoi\<close> rejects leaves
  \<open>Rating\<close> at 0 while the other fields of the row are still filled, and one it accepts
  is stored; two rows that agree under the six recognized names give the same review,
  whatever other columns they have. The row is arbitrary, so this holds for each record
  \<open>ParseCSV\<close> reads.
\<close>

theorem reviewOfRecord_permissive:
  fixes Atoi :: "string \<Rightarrow> go_error + go_int" and header row :: "string list"
  defines "R \<equiv> reviewOfRecord Atoi (buildColIndex header) row"
  shows
    "(''id'' \<notin> set header \<longrightarrow> ID R = [])
     \<and> (''date'' \<notin> set header \<longrightarrow> Date R = [])
     \<and> (''user_id'' \<notin> set header \<longrightarrow> UserID R = [])
     \<and> (''review_text'' \<notin> set header \<longrightarrow> ReviewText R = [])
     \<and> (''rating'' \<notin> set header \<longrightarrow> Rating R = 0)
     \<and> (''source'' \<notin> set header \<longrightarrow> Source R = [])
     \<and> (lastAt header ''id'' i \<and> i < length row \<longrightarrow> ID R = row ! i)
     \<and> (lastAt header ''date'' i \<and> i < length row \<longrightarrow> Date R = row ! i)
     \<and> (lastAt header ''user_id'' i \<and> i < length row \<longrightarrow> UserID R = row ! i)
     \<and> (lastAt header ''review_text'' i \<and> i < length row \<longrightarrow> ReviewText R = row ! i)
     \<and> (lastAt header ''source'' i \<and> i < length row \<longrightarrow> Source R = row ! i)
     \<and> (lastAt header ''rating'' i \<and> i < length row \<and> Atoi (row ! i) = Inr rating \<longrightarrow> Rating R = rating)
     \<and> (lastAt header ''rating'' i \<and> i < length row \<and> Atoi (row ! i) = Inl err \<longrightarrow> Rating R = 0)
     \<and> ((\<forall>name \<in> recognized.
            field (buildColIndex header') name row' = field (buildColIndex header) name row) \<longrightarrow>
          reviewOfRecord Atoi (buildColIndex header') row' = R)"
proof -
  have absent:
    "''id'' \<notin> set header \<longrightarrow> ID R = []"
    "''date'' \<notin> set header \<longrightarrow> Date R = []"
    "''user_id'' \<notin> set header \<longrightarrow> UserID R = []"
    "''review_text'' \<notin> set header \<longrightarrow> ReviewText R = []"
    "''rating'' \<notin> set header \<longrightarrow> Rating R = 0"
    "''source'' \<notin> set header \<longrightarrow> Source R = []"
    by (simp_all add: R_def reviewOfRecord_fields field_absent)
  have copied:
    "lastAt header ''id'' i \<and> i < length row \<longrightarrow> ID R = row ! i"
    "lastAt header ''date'' i \<and> i < length row \<longrightarrow> Date R = row ! i"
    "lastAt header ''user_id'' i \<and> i < length row \<longrightarrow> UserID R = row ! i"
    "lastAt header ''review_text'' i \<and> i < length row \<longrightarrow> ReviewText R = row ! i"
    "lastAt header ''source'' i \<and> i < length row \<longrightarrow> Source R = row ! i"
    by (auto simp add: R_def reviewOfRecord_fields field_lastAt)
  have rating: "Rating R = rating"
    if "lastAt header ''rating'' i" "i < length row" "Atoi (row ! i) = Inr rating"
    using that by (simp add: R_def reviewOfRecord_fields field_lastAt)
  have fallback: "Rating R = 0"
    if "lastAt header ''rating'' i" "i < length row" "Atoi (row ! i) = Inl err"
    using that by (simp add: R_def reviewOfRecord_fields field_lastAt)
  have unknown: "reviewOfRecord Atoi (buildColIndex header') row' = R"
    if "\<forall>name \<in> recognized.
          field (buildColIndex header') name row' = field (buildColIndex header) name row"
    using that by (simp add: R_def reviewOfRecord_def recognized_def)
  from absent copied rating fallback unknown show ?thesis by blast
qed


theorem reviewOfRecord_permissive_witness:
  "reviewOfRecord decimalAtoi (buildColIndex [''id'', ''extra'', ''rating'', ''review_text''])
      [''r1'', ''zzz'', ''five'', ''good''] =
     \<lparr>ID = ''r1'', Date = [], UserID = [], ReviewText = ''good'', Rating = 0, Source = []\<rparr>
   \<and> Rating (reviewOfRecord decimalAtoi (buildColIndex [''id'', ''extra'', ''rating'', ''review_text''])
      [''r1'', ''zzz'', ''5'', ''good'']) = 5
   \<and> reviewOfRecord decimalAtoi (buildColIndex [''rating'', ''id'', ''review_text''])
      [''five'', ''r1'', ''good''] =
     reviewOfRecord decimalAtoi (buildColIndex [''id'', ''extra'', ''rating'', ''review_text''])
      [''r1'', ''zzz'', ''five'', ''good'']"
proof -
  let ?h = "[''id'', ''extra'', ''rating'', ''review_text'']"
  let ?r = "[''r1'', ''zzz'', ''five'', ''good'']"
  let ?h' = "[''rating'', ''id'', ''review_text'']"
  let ?r' = "[''five'', ''r1'', ''good'']"
  let ?R = "reviewOfRecord decimalAtoi (buildColIndex ?h) ?r"
  note inst = reviewOfRecord_permissive [where header = ?h and Atoi = decimalAtoi
      and rating = 5 and err = ErrSyntax and header' = ?h' and row' = ?r']
  have "ID ?R = ''r1''"
    using inst [where row = ?r and i = 0] by (simp add: lastAt_def)
  moreover have "ReviewText ?R = ''good''"
    using inst [where row = ?r and i = 3] by (simp add: lastAt_def)
  moreover have "Rating ?R = 0"
    using inst [where row = ?r and i = 2] by (simp add: lastAt_def decimalAtoi_samples)
  moreover have "Date ?R = [] \<and> UserID ?R = [] \<and> Source ?R = []"
    using inst [where row = ?r and i = 0] by simp
  ultimately have 1: "?R = \<lparr>ID = ''r1'', Date = [], UserID = [], ReviewText = ''good'', Rating = 0, Source = []\<rparr>"
    by (cases ?R) simp
  have 2: "Rating (reviewOfRecord decimalAtoi (buildColIndex ?h) [''r1'', ''zzz'', ''5'', ''good'']) = 5"
    using inst [where row = "[''r1'', ''zzz'', ''5'', ''good'']" and i = 2]
    by (simp add: lastAt_def decimalAtoi_samples)
  have cols: "buildColIndex ?h = [''id'' \<mapsto> 0, ''extra'' \<mapsto> 1, ''rating'' \<mapsto> 2, ''review_text'' \<mapsto> 3]"
    "buildColIndex ?h' = [''rating'' \<mapsto> 0, ''id'' \<mapsto> 1, ''review_text'' \<mapsto> 2]"
    by (simp_all add: buildColIndex_def numeral_2_eq_2 numeral_3_eq_3)
  have same: "\<forall>name \<in> recognized. field (buildColIndex ?h') name ?r' = field (buildColIndex ?h) name ?r"
    unfolding cols by (simp add: recognized_def field_def)
  have 3: "reviewOfRecord decimalAtoi (buildColIndex ?h') ?r' = ?R"
    using inst [where row = ?r and i = 0] same by blast
  from 1 2 3 show ?thesis by simp
qed


section \<open>Properties of the inference gateway\<close>

lemma callGroqAPI_sent:
  assumes "json_Marshal env \<lparr>Model = model g, Messages = [\<lparr>Role = ''user'', Content = prompt\<rparr>]\<rparr> = Inr jsonData"
    and "http_NewRequest env ''POST'' (baseURL g @ ''/chat/completions'') jsonData = Inr req0"
  shows "sent (snd (callGroqAPI env g prompt w)) = sent w @ [requestFor g req0]"
  using assms
  by (simp add: callGroqAPI_def requestFor_def Let_def split: sum.splits option.splits)

lemma callGroqAPI_transport_error:
  assumes "json_Marshal env \<lparr>Model = model g, Messages = [\<lparr>Role = ''user'', Content = prompt\<rparr>]\<rparr> = Inr jsonData"
    and "http_NewRequest env ''POST'' (baseURL g @ ''/chat/completions'') jsonData = Inr req0"
    and "client_Do env (sent w) (requestFor g req0) = Inl err"
  shows "fst (callGroqAPI env g prompt w) = Inl (Errorf ''failed to call Groq API: %w'' [] (Some err))"
  using assms
  by (simp add: callGroqAPI_def requestFor_def Let_def)

lemma callGroqAPI_at_most_one:
  "\<exists>reqs. sent (snd (callGroqAPI env g prompt w)) = sent w @ reqs \<and> length reqs \<le> 1"
  by (simp add: callGroqAPI_def Let_def split: sum.splits option.splits)

lemma ExtractThemes_world:
  "snd (GroqClient_ExtractThemes env g preReviews postReviews w) =
   snd (callGroqAPI env g (themesPrompt (formatReviewsForThemes preReviews) (formatReviewsForThemes postReviews)) w)"
  by (simp add: GroqClient_ExtractThemes_def Let_def split: prod.splits sum.splits)

lemma ExtractThemes_error:
  "fst (callGroqAPI env g (themesPrompt (formatReviewsForThemes preReviews) (formatReviewsForThemes postReviews)) w) = Inl err
   \<Longrightarrow> fst (GroqClient_ExtractThemes env g preReviews postReviews w) = Inl err"
  by (cases "callGroqAPI env g (themesPrompt (formatReviewsForThemes preReviews) (formatReviewsForThemes postReviews)) w")
    (simp add: GroqClient_ExtractThemes_def Let_def)


text \<open>
  C8. On the empty review list \<open>AnalyzeSentiments\<close> returns the empty result set and
  no error, and leaves the world as it was: no request is sent, whatever the
  environment is.
\<close>

theorem GroqClient_AnalyzeSentiments_empty:
  "GroqClient_AnalyzeSentiments env g [] w = (Inr [], w)
   \<and> sent (snd (GroqClient_AnalyzeSentiments env g [] w)) = sent w"
  by (simp add: GroqClient_AnalyzeSentiments_def)


text \<open>With the network down the empty list is still answered without an error.\<close>

theorem GroqClient_AnalyzeSentiments_empty_witness:
  "GroqClient_AnalyzeSentiments offlineEnv (NewGroqClient ''key'') [] \<lparr>sent = []\<rparr> = (Inr [], \<lparr>sent = []\<rparr>)"
  using GroqClient_AnalyzeSentiments_empty [of offlineEnv "NewGroqClient ''key''" "\<lparr>sent = []\<rparr>"]
  by simp


text \<open>
  C10. \<open>ExtractThemes\<close> has no short-circuit: for any two review lists, the empty
  ones included, it builds the prompt and, once the request is encoded and constructed,
  hands exactly one request to the network; an error of the network comes back as the
  error of the call.
\<close>

theorem GroqClient_ExtractThemes_always_calls:
  fixes preReviews postReviews :: "Review list"
  defines "prompt \<equiv> themesPrompt (formatReviewsForThemes preReviews) (formatReviewsForThemes postReviews)"
  assumes "json_Marshal env \<lparr>Model = model g, Messages = [\<lparr>Role = ''user'', Content = prompt\<rparr>]\<rparr> = Inr jsonData"
    and "http_NewRequest env ''POST'' (baseURL g @ ''/chat/completions'') jsonData = Inr req0"
  shows "sent (snd (GroqClient_ExtractThemes env g preReviews postReviews w)) = sent w @ [requestFor g req0]
    \<and> (client_Do env (sent w) (requestFor g req0) = Inl err \<longrightarrow>
         fst (GroqClient_ExtractThemes env g preReviews postReviews w) =
           Inl (Errorf ''failed to call Groq API: %w'' [] (Some err)))"
proof -
  have "sent (snd (GroqClient_ExtractThemes env g preReviews postReviews w)) = sent w @ [requestFor g req0]"
    unfolding ExtractThemes_world
    using assms(2,3) unfolding prompt_def by (rule callGroqAPI_sent)
  moreover have "fst (GroqClient_ExtractThemes env g preReviews postReviews w) =
      Inl (Errorf ''failed to call Groq API: %w'' [] (Some err))"
    if "client_Do env (sent w) (requestFor g req0) = Inl err"
    using assms(2,3) that unfolding prompt_def
    by (intro ExtractThemes_error callGroqAPI_transport_error)
  ultimately show ?thesis by blast
qed


text \<open>Two empty review lists with the network down: one request is sent, and the call fails.\<close>

theorem GroqClient_ExtractThemes_always_calls_witness:
  "GroqClient_ExtractThemes offlineEnv (NewGroqClient ''key'') [] [] \<lparr>sent = []\<rparr> =
     (Inl (Errorf ''failed to call Groq API: %w'' [] (Some (LibError ''dial tcp: connection refused''))),
      \<lparr>sent = [\<lparr>Method = ''POST'', URL = ''https://api.groq.com/openai/v1/chat/completions'',
                 Header = [''Content-Type'' \<mapsto> ''application/json'', ''Authorization'' \<mapsto> ''Bearer key''],
                 Body = themesPrompt [] []\<rparr>]\<rparr>)"
proof -
  let ?g = "NewGroqClient ''key''"
  let ?w = "\<lparr>sent = []\<rparr>"
  let ?req0 = "\<lparr>Method = ''POST'', URL = ''https://api.groq.com/openai/v1/chat/completions'',
                 Header = Map.empty, Body = themesPrompt [] []\<rparr>"
  have fmt: "formatReviewsForThemes [] = []"
    by (simp add: formatReviewsForThemes_def)
  have "sent (snd (GroqClient_ExtractThemes offlineEnv ?g [] [] ?w)) = sent ?w @ [requestFor ?g ?req0]
    \<and> (client_Do offlineEnv (sent ?w) (requestFor ?g ?req0) = Inl (LibError ''dial tcp: connection refused'') \<longrightarrow>
         fst (GroqClient_ExtractThemes offlineEnv ?g [] [] ?w) =
           Inl (Errorf ''failed to call Groq API: %w'' [] (Some (LibError ''dial tcp: connection refused''))))"
    by (rule GroqClient_ExtractThemes_always_calls [where jsonData = "themesPrompt [] []"])
      (simp_all add: offlineEnv_def NewGroqClient_def fmt)
  then have "sent (snd (GroqClient_ExtractThemes offlineEnv ?g [] [] ?w)) = [requestFor ?g ?req0]"
    and "fst (GroqClient_ExtractThemes offlineEnv ?g [] [] ?w) =
           Inl (Errorf ''failed to call Groq API: %w'' [] (Some (LibError ''dial tcp: connection refused'')))"
    by (simp_all add: offlineEnv_def)
  then show ?thesis
    by (cases "GroqClient_ExtractThemes offlineEnv ?g [] [] ?w")
      (simp add: requestFor_def NewGroqClient_def)
qed


end
